theory Spec2Isabelle
  imports Main
begin

section \<open>The browser driver as seen by pyalarmdotcom\<close>

text \<open>
  The module drives alarm.com through selenium. Everything it learns about the remote
  system comes back from a driver call, and every driver call either returns a value or
  raises. The model keeps the driver abstract: a record of functions over an arbitrary
  world \<open>'w\<close>, one function per selenium call the source makes. Each of them takes the world
  and gives the call's outcome and the world after the call.

  Python exceptions are values of \<open>exn\<close>; a computation returns \<open>Inl e\<close> where the source
  raises \<open>e\<close>. The first four are the exceptions named in the \<open>except\<close> clause of \<open>state\<close>;
  \<open>WebDriverException\<close> stands for any other exception of the driver; \<open>AttributeError\<close> and
  \<open>IndexError\<close> are what Python raises for a missing attribute and for a tuple index out
  of range; the last four are the classes the module defines itself.
\<close>

datatype exn =
    NoSuchElementException
  | NoSuchWindowException
  | TimeoutException
  | URLError
  | WebDriverException
  | AttributeError
  | IndexError
  | LoginException
  | SystemArmedError
  | SystemDisarmedError
  | ElementException

type_synonym drv = nat
type_synonym elem = nat

text \<open>The expected conditions handed to \<open>WebDriverWait(...).until\<close>, each on a locator
  \<open>(by, value)\<close>.\<close>

datatype cond =
    visibility_of_element_located string string
  | presence_of_element_located string string
  | invisibility_of_element_located string string

record 'w browser =
  b_PhantomJS :: "'w \<Rightarrow> (exn + drv) \<times> 'w"
  b_get :: "drv \<Rightarrow> string \<Rightarrow> 'w \<Rightarrow> (exn + unit) \<times> 'w"
  b_title :: "drv \<Rightarrow> 'w \<Rightarrow> (exn + string) \<times> 'w"
  b_find_element :: "drv \<Rightarrow> string \<Rightarrow> string \<Rightarrow> 'w \<Rightarrow> (exn + elem) \<times> 'w"
  b_send_keys :: "elem \<Rightarrow> string \<Rightarrow> 'w \<Rightarrow> (exn + unit) \<times> 'w"
  b_click :: "elem \<Rightarrow> 'w \<Rightarrow> (exn + unit) \<times> 'w"
  b_get_attribute :: "elem \<Rightarrow> string \<Rightarrow> 'w \<Rightarrow> (exn + string option) \<times> 'w"
  b_until :: "drv \<Rightarrow> int \<Rightarrow> cond \<Rightarrow> 'w \<Rightarrow> (exn + elem) \<times> 'w"

text \<open>
  Every driver call is recorded, with its arguments and its outcome, in a trace. The
  trace is what the theorems below read to say which interactions took place.
\<close>

datatype event =
    E_PhantomJS "exn + drv"
  | E_get drv string "exn + unit"
  | E_title drv "exn + string"
  | E_find_element drv string string "exn + elem"
  | E_send_keys elem string "exn + unit"
  | E_click elem "exn + unit"
  | E_get_attribute elem string "exn + string option"
  | E_until drv int cond "exn + elem"

record 'w io =
  world :: 'w
  trace :: "event list"

section \<open>The Alarmdotcom object\<close>

text \<open>
  The attributes of an \<open>Alarmdotcom\<close> instance. \<open>driver\<close> is \<open>self._driver\<close>; it is
  \<open>None\<close> as long as \<open>_login\<close> has not assigned it (the attribute does not exist then).
\<close>

record alarm =
  username :: string
  password :: string
  timeout :: int
  driver :: "drv option"

text \<open>
  A method runs on a configuration: the object and the driver's world with its trace.
  It returns its result, or the exception it raises, and the configuration it leaves.
\<close>

type_synonym 'w conf = "alarm \<times> 'w io"
type_synonym ('w, 'a) meth = "'w conf \<Rightarrow> (exn + 'a) \<times> 'w conf"

definition bnd :: "('w, 'a) meth \<Rightarrow> ('a \<Rightarrow> ('w, 'b) meth) \<Rightarrow> ('w, 'b) meth" where
  "bnd m f c = (case m c of (r, c1) \<Rightarrow> (case r of Inl e \<Rightarrow> (Inl e, c1) | Inr x \<Rightarrow> f x c1))"

definition ret :: "'a \<Rightarrow> ('w, 'a) meth" where
  "ret x c = (Inr x, c)"

definition perform :: "('w \<Rightarrow> (exn + 'a) \<times> 'w) \<Rightarrow> ((exn + 'a) \<Rightarrow> event) \<Rightarrow> ('w, 'a) meth" where
  "perform f ev c =
     (case c of (self, s) \<Rightarrow>
        (case f (world s) of (r, w) \<Rightarrow>
           (r, self, \<lparr>world = w, trace = trace s @ [ev r]\<rparr>)))"

definition attr :: "(alarm \<Rightarrow> 'a) \<Rightarrow> ('w, 'a) meth" where
  "attr f c = (Inr (f (fst c)), c)"

definition self_driver :: "('w, drv) meth" where
  "self_driver c = (case driver (fst c) of None \<Rightarrow> (Inl AttributeError, c) | Some d \<Rightarrow> (Inr d, c))"

definition set_driver :: "drv \<Rightarrow> ('w, unit) meth" where
  "set_driver d c = (Inr (), (fst c)\<lparr>driver := Some d\<rparr>, snd c)"

text \<open>Tuple indexing \<open>t[i]\<close>, with Python's \<open>IndexError\<close> out of range.\<close>

definition item :: "string list \<Rightarrow> nat \<Rightarrow> ('w, string) meth" where
  "item t i c = (if i < length t then (Inr (t ! i), c) else (Inl IndexError, c))"

subsection \<open>The driver calls, recorded\<close>

definition PhantomJS :: "'w browser \<Rightarrow> ('w, drv) meth" where
  "PhantomJS B = perform (b_PhantomJS B) E_PhantomJS"

definition get :: "'w browser \<Rightarrow> drv \<Rightarrow> string \<Rightarrow> ('w, unit) meth" where
  "get B d url = perform (b_get B d url) (E_get d url)"

definition title :: "'w browser \<Rightarrow> drv \<Rightarrow> ('w, string) meth" where
  "title B d = perform (b_title B d) (E_title d)"

definition find_element :: "'w browser \<Rightarrow> drv \<Rightarrow> string \<Rightarrow> string \<Rightarrow> ('w, elem) meth" where
  "find_element B d by v = perform (b_find_element B d by v) (E_find_element d by v)"

definition send_keys :: "'w browser \<Rightarrow> elem \<Rightarrow> string \<Rightarrow> ('w, unit) meth" where
  "send_keys B e txt = perform (b_send_keys B e txt) (E_send_keys e txt)"

definition click :: "'w browser \<Rightarrow> elem \<Rightarrow> ('w, unit) meth" where
  "click B e = perform (b_click B e) (E_click e)"

definition get_attribute :: "'w browser \<Rightarrow> elem \<Rightarrow> string \<Rightarrow> ('w, string option) meth" where
  "get_attribute B e n = perform (b_get_attribute B e n) (E_get_attribute e n)"

definition until :: "'w browser \<Rightarrow> drv \<Rightarrow> int \<Rightarrow> cond \<Rightarrow> ('w, elem) meth" where
  "until B d t cnd = perform (b_until B d t cnd) (E_until d t cnd)"

subsection \<open>Page elements\<close>

definition LOGIN_URL :: string where
  "LOGIN_URL = ''https://www.alarm.com/login?m=no_session&ReturnUrl=/web/Security/SystemSummary.aspx''"

definition LOGIN_USERNAME :: "string list" where
  "LOGIN_USERNAME = [''name'', ''ctl00$ContentPlaceHolder1$loginform$txtUserName'']"

definition LOGIN_PASSWORD :: "string list" where
  "LOGIN_PASSWORD = [''name'', ''txtPassword'']"

definition LOGIN_BUTTON :: "string list" where
  "LOGIN_BUTTON = [''name'', ''ctl00$ContentPlaceHolder1$loginform$signInButton'']"

definition STATUS_IMG :: "string list" where
  "STATUS_IMG = [''id'', ''ctl00_phBody_ArmingStateWidget_imgState'']"

definition BTN_DISARM :: "string list" where
  "BTN_DISARM = [''id'', ''ctl00_phBody_ArmingStateWidget_btnDisarm'']"

definition BTN_ARM_STAY :: "string list" where
  "BTN_ARM_STAY = [''id'', ''ctl00_phBody_ArmingStateWidget_btnArmStay'',
                   ''ctl00_phBody_ArmingStateWidget_btnArmOptionStay'']"

definition BTN_ARM_AWAY :: "string list" where
  "BTN_ARM_AWAY = [''id'', ''ctl00_phBody_ArmingStateWidget_btnArmAway'',
                   ''ctl00_phBody_ArmingStateWidget_btnArmOptionAway'']"

subsection \<open>\<open>_login\<close> and the constructor\<close>

text \<open>
  \<open>_login\<close> starts a new PhantomJS, stores it in \<open>self._driver\<close>, opens the login page and
  compares the page title twice. It returns \<open>True\<close> or \<open>False\<close>; an exception of a driver
  call passes through it.
\<close>

definition login :: "'w browser \<Rightarrow> ('w, bool) meth" where
  "login B =
     bnd (PhantomJS B) (\<lambda>d.
     bnd (set_driver d) (\<lambda>_.
     bnd (get B d LOGIN_URL) (\<lambda>_.
     bnd (title B d) (\<lambda>t.
     if t = ''Customer Login'' then
       bnd (find_element B d (LOGIN_USERNAME ! 0) (LOGIN_USERNAME ! 1)) (\<lambda>user.
       bnd (find_element B d (LOGIN_PASSWORD ! 0) (LOGIN_PASSWORD ! 1)) (\<lambda>pwd.
       bnd (find_element B d (LOGIN_BUTTON ! 0) (LOGIN_BUTTON ! 1)) (\<lambda>btn.
       bnd (attr username) (\<lambda>u.
       bnd (send_keys B user u) (\<lambda>_.
       bnd (attr password) (\<lambda>p.
       bnd (send_keys B pwd p) (\<lambda>_.
       bnd (click B btn) (\<lambda>_.
       bnd (title B d) (\<lambda>t2.
       if t2 = ''Current System Status'' then ret True else ret False)))))))))
     else ret False))))"

text \<open>
  \<open>Alarmdotcom(username, password, timeout)\<close>: the constructor. It gives the new object,
  or raises; then no object exists, only the driver's world goes on.
\<close>

definition Alarmdotcom :: "'w browser \<Rightarrow> string \<Rightarrow> string \<Rightarrow> int \<Rightarrow> 'w io \<Rightarrow> (exn + alarm) \<times> 'w io" where
  "Alarmdotcom B u p t s =
     (case login B (\<lparr>username = u, password = p, timeout = t, driver = None\<rparr>, s) of
        (r, self, s1) \<Rightarrow>
          (case r of
             Inl e \<Rightarrow> (Inl e, s1)
           | Inr ok \<Rightarrow> if \<not> ok then (Inl LoginException, s1) else (Inr self, s1)))"

text \<open>The default of the constructor's \<open>timeout\<close> parameter.\<close>

definition init_timeout_default :: int where
  "init_timeout_default = 5"

subsection \<open>\<open>_set_state\<close>\<close>

text \<open>
  \<open>_set_state(btn, timeout)\<close> waits for the button \<open>(btn[0], btn[1])\<close> and clicks it. When
  the tuple has a third component it waits for \<open>(btn[0], btn[2])\<close>, clicks that, and then
  waits, for \<open>timeout\<close> seconds, until the spinner is gone; only this last wait stands
  in the \<open>try\<close> whose handler turns \<open>TimeoutException\<close> into \<open>ElementException\<close>.
\<close>

definition wait_spinner :: "'w browser \<Rightarrow> drv \<Rightarrow> int \<Rightarrow> ('w, unit) meth" where
  "wait_spinner B d t c =
     (case until B d t (invisibility_of_element_located ''id''
                   ''ctl00_phBody_ArmingStateWidget_imgPopupSpinner'') c of
        (r, c1) \<Rightarrow>
          (case r of
             Inl e \<Rightarrow> if e = TimeoutException then (Inl ElementException, c1) else (Inl e, c1)
           | Inr _ \<Rightarrow> (Inr (), c1)))"

definition set_state :: "'w browser \<Rightarrow> string list \<Rightarrow> int \<Rightarrow> ('w, unit) meth" where
  "set_state B btn t =
     bnd self_driver (\<lambda>d.
     bnd (attr timeout) (\<lambda>st.
     bnd (item btn 0) (\<lambda>by.
     bnd (item btn 1) (\<lambda>v.
     bnd (until B d st (visibility_of_element_located by v)) (\<lambda>button.
     bnd (click B button) (\<lambda>_.
     if length btn > 2 then
       bnd self_driver (\<lambda>d2.
       bnd (attr timeout) (\<lambda>st2.
       bnd (item btn 0) (\<lambda>by2.
       bnd (item btn 2) (\<lambda>v2.
       bnd (until B d2 st2 (visibility_of_element_located by2 v2)) (\<lambda>opt_button.
       bnd (click B opt_button) (\<lambda>_.
       bnd self_driver (\<lambda>d3.
       wait_spinner B d3 t)))))))
     else ret ()))))))"

text \<open>The default of the \<open>timeout\<close> parameter of \<open>_set_state\<close>; no caller passes another.\<close>

definition set_state_timeout_default :: int where
  "set_state_timeout_default = 10"

subsection \<open>\<open>state\<close>\<close>

text \<open>
  The body of the \<open>try\<close> in \<open>state\<close>: wait for the refresh button, click it, wait for the
  status image and read its \<open>alt\<close> attribute (\<open>None\<close> when the image has none).
\<close>

definition state_try :: "'w browser \<Rightarrow> ('w, string option) meth" where
  "state_try B =
     bnd self_driver (\<lambda>d.
     bnd (attr timeout) (\<lambda>st.
     bnd (until B d st (visibility_of_element_located ''id''
            ''ctl00_phBody_ArmingStateWidget_btnArmingRefresh'')) (\<lambda>button.
     bnd (click B button) (\<lambda>_.
     bnd self_driver (\<lambda>d2.
     bnd (attr timeout) (\<lambda>st2.
     bnd (until B d2 st2 (presence_of_element_located (STATUS_IMG ! 0) (STATUS_IMG ! 1))) (\<lambda>img.
     get_attribute B img ''alt'')))))))"

text \<open>The exceptions of the \<open>except\<close> clause of \<open>state\<close>.\<close>

definition state_except :: "exn list" where
  "state_except = [NoSuchElementException, NoSuchWindowException, TimeoutException, URLError]"

text \<open>
  \<open>state\<close> calls itself in its handler, after \<open>_login\<close>, whose result it drops; nothing
  bounds the depth. A query that never comes back is \<open>None\<close>. (CPython would end such a
  run with its recursion limit; the model does not count frames.)
\<close>

partial_function (option) state :: "'w browser \<Rightarrow> 'w conf \<Rightarrow> ((exn + string option) \<times> 'w conf) option" where
  "state B c =
     (case state_try B c of
        (r, c1) \<Rightarrow>
          (case r of
             Inr current_status \<Rightarrow> Some (Inr current_status, c1)
           | Inl e \<Rightarrow>
               if e \<in> set state_except then
                 (case login B c1 of
                    (r2, c2) \<Rightarrow>
                      (case r2 of
                         Inl e2 \<Rightarrow> Some (Inl e2, c2)
                       | Inr _ \<Rightarrow> state B c2))
               else Some (Inl e, c1)))"

subsection \<open>\<open>disarm\<close>, \<open>arm_away\<close>, \<open>arm_stay\<close>\<close>

definition disarm :: "'w browser \<Rightarrow> 'w conf \<Rightarrow> ((exn + unit) \<times> 'w conf) option" where
  "disarm B c =
     (case state B c of
        None \<Rightarrow> None
      | Some (r, c1) \<Rightarrow>
          (case r of
             Inl e \<Rightarrow> Some (Inl e, c1)
           | Inr st \<Rightarrow>
               if st \<noteq> Some ''Disarmed'' then Some (set_state B BTN_DISARM set_state_timeout_default c1)
               else Some (Inl SystemDisarmedError, c1)))"

definition arm_away :: "'w browser \<Rightarrow> 'w conf \<Rightarrow> ((exn + unit) \<times> 'w conf) option" where
  "arm_away B c =
     (case state B c of
        None \<Rightarrow> None
      | Some (r, c1) \<Rightarrow>
          (case r of
             Inl e \<Rightarrow> Some (Inl e, c1)
           | Inr st \<Rightarrow>
               if st = Some ''Disarmed'' then Some (set_state B BTN_ARM_AWAY set_state_timeout_default c1)
               else Some (Inl SystemArmedError, c1)))"

definition arm_stay :: "'w browser \<Rightarrow> 'w conf \<Rightarrow> ((exn + unit) \<times> 'w conf) option" where
  "arm_stay B c =
     (case state B c of
        None \<Rightarrow> None
      | Some (r, c1) \<Rightarrow>
          (case r of
             Inl e \<Rightarrow> Some (Inl e, c1)
           | Inr st \<Rightarrow>
               if st = Some ''Disarmed'' then Some (set_state B BTN_ARM_STAY set_state_timeout_default c1)
               else Some (Inl SystemArmedError, c1)))"

section \<open>Reading traces\<close>

text \<open>A reconnect is a run of \<open>_login\<close>; each starts one new PhantomJS, and nothing else does.\<close>

fun is_PhantomJS :: "event \<Rightarrow> bool" where
  "is_PhantomJS (E_PhantomJS r) = True"
| "is_PhantomJS _ = False"

definition reconnects :: "event list \<Rightarrow> nat" where
  "reconnects tr = length (filter is_PhantomJS tr)"

text \<open>\<open>only p m\<close>: whatever \<open>m\<close> does, it only appends events, and each satisfies \<open>p\<close>.\<close>

definition only :: "(event \<Rightarrow> bool) \<Rightarrow> ('w, 'a) meth \<Rightarrow> bool" where
  "only p m = (\<forall>c r c'. m c = (r, c') \<longrightarrow> (\<exists>evs. trace (snd c') = trace (snd c) @ evs \<and> list_all p evs))"

text \<open>
  The specification speaks of an enumerated \<open>AlarmState\<close> with these four values. The
  source has no such type: \<open>state\<close> returns a string.
\<close>

definition spec_AlarmState :: "string list" where
  "spec_AlarmState = [''Disarmed'', ''ArmedStay'', ''ArmedAway'', ''Unknown'']"

section \<open>A scripted driver\<close>

text \<open>
  A driver whose world is the list of answers it has still to give, one per call, whatever
  the call. It is the driver of the concrete runs below. A call that finds no answer, or
  an answer of the wrong kind, raises \<open>WebDriverException\<close>.
\<close>

datatype answer = A_ok | A_handle nat | A_text string | A_none | A_raise exn

fun as_unit :: "answer \<Rightarrow> exn + unit" where
  "as_unit A_ok = Inr ()"
| "as_unit (A_raise e) = Inl e"
| "as_unit _ = Inl WebDriverException"

fun as_handle :: "answer \<Rightarrow> exn + nat" where
  "as_handle (A_handle n) = Inr n"
| "as_handle (A_raise e) = Inl e"
| "as_handle _ = Inl WebDriverException"

fun as_text :: "answer \<Rightarrow> exn + string" where
  "as_text (A_text t) = Inr t"
| "as_text (A_raise e) = Inl e"
| "as_text _ = Inl WebDriverException"

fun as_attribute :: "answer \<Rightarrow> exn + string option" where
  "as_attribute (A_text t) = Inr (Some t)"
| "as_attribute A_none = Inr None"
| "as_attribute (A_raise e) = Inl e"
| "as_attribute _ = Inl WebDriverException"

fun answer_with :: "(answer \<Rightarrow> exn + 'a) \<Rightarrow> answer list \<Rightarrow> (exn + 'a) \<times> answer list" where
  "answer_with f [] = (Inl WebDriverException, [])"
| "answer_with f (a # w) = (f a, w)"

definition scripted :: "answer list browser" where
  "scripted =
     \<lparr>b_PhantomJS = answer_with as_handle,
      b_get = (\<lambda>d url. answer_with as_unit),
      b_title = (\<lambda>d. answer_with as_text),
      b_find_element = (\<lambda>d by v. answer_with as_handle),
      b_send_keys = (\<lambda>e txt. answer_with as_unit),
      b_click = (\<lambda>e. answer_with as_unit),
      b_get_attribute = (\<lambda>e n. answer_with as_attribute),
      b_until = (\<lambda>d t cnd. answer_with as_handle)\<rparr>"

text \<open>The answers of a login that succeeds, on a PhantomJS with handle \<open>d\<close>.\<close>

definition login_ok :: "nat \<Rightarrow> answer list" where
  "login_ok d =
     [A_handle d, A_ok, A_text ''Customer Login'', A_handle 10, A_handle 11, A_handle 12,
      A_ok, A_ok, A_ok, A_text ''Current System Status'']"

text \<open>The answers of a status read that finds \<open>alt\<close> to be \<open>t\<close>.\<close>

definition read_ok :: "string \<Rightarrow> answer list" where
  "read_ok t = [A_handle 20, A_ok, A_handle 21, A_text t]"

text \<open>An object as the constructor leaves it, and a configuration with a script to run.\<close>

definition alice :: alarm where
  "alice = \<lparr>username = ''alice'', password = ''secret'', timeout = 5, driver = Some 0\<rparr>"

definition run :: "answer list \<Rightarrow> answer list conf" where
  "run w = (alice, \<lparr>world = w, trace = []\<rparr>)"

text \<open>An object built with \<open>timeout=30\<close>.\<close>

definition patient :: alarm where
  "patient = \<lparr>username = ''alice'', password = ''secret'', timeout = 30, driver = Some 0\<rparr>"

text \<open>The events of a login that succeeds, of a status read that succeeds, and of one that
  fails at its first wait.\<close>

definition login_events :: "nat \<Rightarrow> string \<Rightarrow> string \<Rightarrow> event list" where
  "login_events d u p =
     [E_PhantomJS (Inr d), E_get d LOGIN_URL (Inr ()), E_title d (Inr ''Customer Login''),
      E_find_element d ''name'' ''ctl00$ContentPlaceHolder1$loginform$txtUserName'' (Inr 10),
      E_find_element d ''name'' ''txtPassword'' (Inr 11),
      E_find_element d ''name'' ''ctl00$ContentPlaceHolder1$loginform$signInButton'' (Inr 12),
      E_send_keys 10 u (Inr ()), E_send_keys 11 p (Inr ()), E_click 12 (Inr ()),
      E_title d (Inr ''Current System Status'')]"

definition read_events :: "nat \<Rightarrow> int \<Rightarrow> string \<Rightarrow> event list" where
  "read_events d t v =
     [E_until d t (visibility_of_element_located ''id''
        ''ctl00_phBody_ArmingStateWidget_btnArmingRefresh'') (Inr 20),
      E_click 20 (Inr ()),
      E_until d t (presence_of_element_located ''id'' ''ctl00_phBody_ArmingStateWidget_imgState'') (Inr 21),
      E_get_attribute 21 ''alt'' (Inr (Some v))]"

definition read_fails :: "nat \<Rightarrow> int \<Rightarrow> exn \<Rightarrow> event list" where
  "read_fails d t e =
     [E_until d t (visibility_of_element_located ''id''
        ''ctl00_phBody_ArmingStateWidget_btnArmingRefresh'') (Inl e)]"

text \<open>Scripts: a read that times out, a login, and a read that succeeds; the same with
  two timeouts; a timeout after which PhantomJS does not start.\<close>

definition one_timeout :: "answer list" where
  "one_timeout = A_raise TimeoutException # login_ok 2 @ read_ok ''Disarmed''"

definition two_timeouts :: "answer list" where
  "two_timeouts =
     A_raise TimeoutException # login_ok 2 @ A_raise TimeoutException # login_ok 3 @ read_ok ''Disarmed''"

definition login_crashes :: "answer list" where
  "login_crashes = [A_raise NoSuchWindowException, A_raise WebDriverException]"

text \<open>Scripts for \<open>_set_state\<close> on a button with a second option: every control is found
  and the spinner goes away, or the spinner stays. \<open>arm_events\<close> is the trace of both, up
  to the outcome \<open>r\<close> of the last wait.\<close>

definition arm_ok :: "answer list" where
  "arm_ok = [A_handle 30, A_ok, A_handle 31, A_ok, A_handle 32]"

definition spinner_stays :: "answer list" where
  "spinner_stays = [A_handle 30, A_ok, A_handle 31, A_ok, A_raise TimeoutException]"

definition arm_events :: "string list \<Rightarrow> int \<Rightarrow> exn + elem \<Rightarrow> event list" where
  "arm_events btn t r =
     [E_until 0 5 (visibility_of_element_located (btn ! 0) (btn ! 1)) (Inr 30),
      E_click 30 (Inr ()),
      E_until 0 5 (visibility_of_element_located (btn ! 0) (btn ! 2)) (Inr 31),
      E_click 31 (Inr ()),
      E_until 0 t (invisibility_of_element_located ''id''
         ''ctl00_phBody_ArmingStateWidget_imgPopupSpinner'') r]"

text \<open>Scripts for the constructor: the login URL shows another page; the page after the
  credentials is the login page again.\<close>

definition wrong_page :: "answer list" where
  "wrong_page = [A_handle 2, A_ok, A_text ''Not Found'']"

definition wrong_password :: "answer list" where
  "wrong_password =
     [A_handle 2, A_ok, A_text ''Customer Login'', A_handle 10, A_handle 11, A_handle 12,
      A_ok, A_ok, A_ok, A_text ''Customer Login'']"

section \<open>Facts about driver calls and sequencing\<close>

text \<open>A driver call leaves the object alone and appends exactly its own event.\<close>

lemma perform_self: "perform f ev c = (r, c') \<Longrightarrow> fst c' = fst c"
  by (auto simp: perform_def split: prod.splits)

lemma perform_trace: "perform f ev c = (r, c') \<Longrightarrow> trace (snd c') = trace (snd c) @ [ev r]"
  by (auto simp: perform_def split: prod.splits)

lemmas call_defs = PhantomJS_def get_def title_def find_element_def send_keys_def click_def
  get_attribute_def until_def

lemma until_self: "until B d t cnd c = (r, c') \<Longrightarrow> fst c' = fst c"
  unfolding until_def by (rule perform_self)

lemma click_self: "click B e c = (r, c') \<Longrightarrow> fst c' = fst c"
  unfolding click_def by (rule perform_self)

lemma until_trace: "until B d t cnd c = (r, c') \<Longrightarrow> trace (snd c') = trace (snd c) @ [E_until d t cnd r]"
  unfolding until_def by (rule perform_trace)

lemma click_trace: "click B e c = (r, c') \<Longrightarrow> trace (snd c') = trace (snd c) @ [E_click e r]"
  unfolding click_def by (rule perform_trace)

text \<open>Inversion: what a computation that returned normally must have gone through.\<close>

lemma bnd_InrE:
  assumes "bnd m f c = (Inr y, c')"
  obtains x c1 where "m c = (Inr x, c1)" "f x c1 = (Inr y, c')"
  using assms by (auto simp: bnd_def split: prod.splits sum.splits)

lemma perform_InrE:
  assumes "perform f ev c = (Inr x, c')"
  shows "fst c' = fst c \<and> trace (snd c') = trace (snd c) @ [ev (Inr x)]"
  using assms by (auto simp: perform_def split: prod.splits)

lemma self_driver_InrE: "self_driver c = (Inr d, c') \<Longrightarrow> c' = c \<and> driver (fst c) = Some d"
  by (auto simp: self_driver_def split: option.splits)

lemma attr_InrE: "attr g c = (Inr x, c') \<Longrightarrow> c' = c \<and> x = g (fst c)"
  by (auto simp: attr_def)

lemma set_driver_InrE: "set_driver d c = (Inr x, c') \<Longrightarrow> c' = ((fst c)\<lparr>driver := Some d\<rparr>, snd c)"
  by (auto simp: set_driver_def)

lemma ret_InrE: "ret x c = (Inr y, c') \<Longrightarrow> y = x \<and> c' = c"
  by (auto simp: ret_def)

lemma item_InrE: "item t i c = (Inr x, c') \<Longrightarrow> c' = c \<and> x = t ! i \<and> i < length t"
  by (auto simp: item_def split: if_splits)

text \<open>\<open>only\<close> is preserved by sequencing, so it is proved of a method by following its text.\<close>

lemma onlyD: "only p m \<Longrightarrow> m c = (r, c') \<Longrightarrow> \<exists>evs. trace (snd c') = trace (snd c) @ evs \<and> list_all p evs"
  unfolding only_def by blast

lemma only_bnd: "only p m \<Longrightarrow> (\<And>x. only p (f x)) \<Longrightarrow> only p (bnd m f)"
  unfolding only_def bnd_def
  by (fastforce split: prod.splits sum.splits)

lemma only_perform: "(\<And>r. p (ev r)) \<Longrightarrow> only p (perform f ev)"
  by (auto simp: only_def perform_def split: prod.splits)

lemma only_simple: "only p (ret x)" "only p (attr g)" "only p self_driver" "only p (set_driver d)"
  "only p (item t i)"
  by (auto simp: only_def ret_def attr_def self_driver_def set_driver_def item_def split: option.splits)

lemma only_if: "only p m \<Longrightarrow> only p n \<Longrightarrow> only p (if b then m else n)"
  by simp

lemma bnd_first_event:
  assumes "bnd (perform f ev) g c = (r, c')" and "\<And>x. only p (g x)"
  shows "\<exists>res evs. trace (snd c') = trace (snd c) @ ev res # evs \<and> list_all p evs"
proof -
  obtain res c1 where p: "perform f ev c = (res, c1)" by (cases "perform f ev c")
  from perform_trace[OF p] have t1: "trace (snd c1) = trace (snd c) @ [ev res]" .
  show ?thesis
  proof (cases res)
    case (Inl e)
    with p assms(1) have "c' = c1" by (simp add: bnd_def)
    with t1 show ?thesis by auto
  next
    case (Inr x)
    with p assms(1) have "g x c1 = (r, c')" by (simp add: bnd_def)
    from onlyD[OF assms(2) this] t1 show ?thesis by auto
  qed
qed

lemma reconnects_append: "reconnects (xs @ ys) = reconnects xs + reconnects ys"
  by (simp add: reconnects_def)

section \<open>The methods, step by step\<close>

text \<open>The four ways through one unfolding of \<open>state\<close>.\<close>

lemma state_success: "state_try B c = (Inr v, c1) \<Longrightarrow> state B c = Some (Inr v, c1)"
  by (subst state.simps) simp

lemma state_raises: "state_try B c = (Inl e, c1) \<Longrightarrow> e \<notin> set state_except \<Longrightarrow> state B c = Some (Inl e, c1)"
  by (subst state.simps) simp

lemma state_again: "state_try B c = (Inl e, c1) \<Longrightarrow> e \<in> set state_except \<Longrightarrow> login B c1 = (Inr ok, c2)
   \<Longrightarrow> state B c = state B c2"
  by (subst state.simps) simp

lemma state_login_raises: "state_try B c = (Inl e, c1) \<Longrightarrow> e \<in> set state_except \<Longrightarrow> login B c1 = (Inl e2, c2)
   \<Longrightarrow> state B c = Some (Inl e2, c2)"
  by (subst state.simps) simp

text \<open>The traces of a status read, of \<open>_login\<close> and of \<open>_set_state\<close>.\<close>

lemma state_try_Inr:
  assumes "state_try B c = (Inr v, c')"
  shows "\<exists>d b img. driver (fst c) = Some d \<and> fst c' = fst c \<and> trace (snd c') = trace (snd c) @
      [E_until d (timeout (fst c)) (visibility_of_element_located ''id''
           ''ctl00_phBody_ArmingStateWidget_btnArmingRefresh'') (Inr b),
       E_click b (Inr ()),
       E_until d (timeout (fst c)) (presence_of_element_located (STATUS_IMG ! 0) (STATUS_IMG ! 1)) (Inr img),
       E_get_attribute img ''alt'' (Inr v)]"
  using assms unfolding state_try_def call_defs
  by (elim bnd_InrE) (auto dest!: perform_InrE self_driver_InrE attr_InrE)

lemma state_try_extends:
  assumes "state_try B c = (r, c')"
  shows "\<exists>evs. trace (snd c') = trace (snd c) @ evs"
proof -
  have "only (\<lambda>_. True) (state_try B)"
    unfolding state_try_def call_defs
    by (intro only_bnd only_simple only_perform) simp_all
  from onlyD[OF this assms] show ?thesis by blast
qed

lemma login_True:
  assumes "login B c = (Inr True, c')"
  shows "\<exists>d user pwd btn. fst c' = (fst c)\<lparr>driver := Some d\<rparr> \<and>
     trace (snd c') = trace (snd c) @
       [E_PhantomJS (Inr d), E_get d LOGIN_URL (Inr ()), E_title d (Inr ''Customer Login''),
        E_find_element d (LOGIN_USERNAME ! 0) (LOGIN_USERNAME ! 1) (Inr user),
        E_find_element d (LOGIN_PASSWORD ! 0) (LOGIN_PASSWORD ! 1) (Inr pwd),
        E_find_element d (LOGIN_BUTTON ! 0) (LOGIN_BUTTON ! 1) (Inr btn),
        E_send_keys user (username (fst c)) (Inr ()),
        E_send_keys pwd (password (fst c)) (Inr ()),
        E_click btn (Inr ()),
        E_title d (Inr ''Current System Status'')]"
  using assms unfolding login_def call_defs
  apply (elim bnd_InrE)
  apply (simp split: if_splits)
   apply (elim bnd_InrE)
  apply (auto dest!: perform_InrE set_driver_InrE attr_InrE ret_InrE split: if_splits)
  done

lemma login_starts:
  assumes "login B c = (r, c')"
  shows "\<exists>res evs. trace (snd c') = trace (snd c) @ E_PhantomJS res # evs \<and> reconnects evs = 0"
proof -
  let ?rest = "\<lambda>d. 
     bnd (set_driver d) (\<lambda>_.
     bnd (get B d LOGIN_URL) (\<lambda>_.
     bnd (title B d) (\<lambda>t.
     if t = ''Customer Login'' then
       bnd (find_element B d (LOGIN_USERNAME ! 0) (LOGIN_USERNAME ! 1)) (\<lambda>user.
       bnd (find_element B d (LOGIN_PASSWORD ! 0) (LOGIN_PASSWORD ! 1)) (\<lambda>pwd.
       bnd (find_element B d (LOGIN_BUTTON ! 0) (LOGIN_BUTTON ! 1)) (\<lambda>btn.
       bnd (attr username) (\<lambda>u.
       bnd (send_keys B user u) (\<lambda>_.
       bnd (attr password) (\<lambda>p.
       bnd (send_keys B pwd p) (\<lambda>_.
       bnd (click B btn) (\<lambda>_.
       bnd (title B d) (\<lambda>t2.
       if t2 = ''Current System Status'' then ret True else ret False)))))))))
     else ret False)))"
  have rest: "only (\<lambda>e. \<not> is_PhantomJS e) (?rest d)" for d
    unfolding get_def title_def find_element_def send_keys_def click_def
    by (intro only_bnd only_if only_simple only_perform) simp_all
  from assms have "bnd (perform (b_PhantomJS B) E_PhantomJS) ?rest c = (r, c')"
    unfolding login_def PhantomJS_def .
  from bnd_first_event[OF this rest] obtain res evs where
    "trace (snd c') = trace (snd c) @ E_PhantomJS res # evs" "list_all (\<lambda>e. \<not> is_PhantomJS e) evs"
    by blast
  then show ?thesis by (auto simp: reconnects_def list_all_iff filter_empty_conv)
qed

lemma login_extends:
  assumes "login B c = (r, c')"
  shows "\<exists>evs. trace (snd c') = trace (snd c) @ evs"
  using login_starts[OF assms] by blast

lemma wait_spinner_Inr:
  assumes "wait_spinner B d t c = (Inr u, c')"
  shows "\<exists>x. fst c' = fst c \<and> trace (snd c') = trace (snd c) @
     [E_until d t (invisibility_of_element_located ''id''
        ''ctl00_phBody_ArmingStateWidget_imgPopupSpinner'') (Inr x)]"
proof -
  obtain r c1 where u: "until B d t (invisibility_of_element_located ''id''
        ''ctl00_phBody_ArmingStateWidget_imgPopupSpinner'') c = (r, c1)"
    by (cases "until B d t (invisibility_of_element_located ''id''
        ''ctl00_phBody_ArmingStateWidget_imgPopupSpinner'') c")
  with assms obtain x where "r = Inr x" "c' = c1"
    by (auto simp: wait_spinner_def split: sum.splits if_splits)
  with until_self[OF u] until_trace[OF u] show ?thesis by auto
qed

lemma set_state_completes:
  assumes "set_state B btn t c = (Inr u, c')" and "2 < length btn"
  shows "\<exists>d b opt x. driver (fst c) = Some d \<and> trace (snd c') = trace (snd c) @
      [E_until d (timeout (fst c)) (visibility_of_element_located (btn ! 0) (btn ! 1)) (Inr b),
       E_click b (Inr ()),
       E_until d (timeout (fst c)) (visibility_of_element_located (btn ! 0) (btn ! 2)) (Inr opt),
       E_click opt (Inr ()),
       E_until d t (invisibility_of_element_located ''id''
          ''ctl00_phBody_ArmingStateWidget_imgPopupSpinner'') (Inr x)]"
  using assms unfolding set_state_def until_def click_def
  apply (elim bnd_InrE)
  apply (simp split: if_splits)
  apply (elim bnd_InrE)
  apply (auto dest!: perform_InrE self_driver_InrE attr_InrE item_InrE wait_spinner_Inr)
  done

lemma set_state_primary_only:
  assumes "set_state B btn t c = (r, c')" and "\<not> 2 < length btn"
  shows "\<exists>evs. trace (snd c') = trace (snd c) @ evs \<and> length evs \<le> 2 \<and>
     (r = Inr () \<longrightarrow> (\<exists>d b. driver (fst c) = Some d \<and> evs =
        [E_until d (timeout (fst c)) (visibility_of_element_located (btn ! 0) (btn ! 1)) (Inr b),
         E_click b (Inr ())]))"
  using assms
  by (auto simp: set_state_def bnd_def self_driver_def attr_def item_def ret_def until_def click_def
      perform_def split: prod.splits sum.splits option.splits if_splits)

text \<open>Once the primary button is clicked, a tuple with a third component leaves exactly
  the secondary wait, the secondary click and the wait for the spinner to be run.\<close>

lemma set_state_after_primary:
  assumes "driver (fst c) = Some d" and "2 < length btn"
    and "until B d (timeout (fst c)) (visibility_of_element_located (btn ! 0) (btn ! 1)) c = (Inr b, c1)"
    and "click B b c1 = (Inr u, c2)"
  shows "set_state B btn t c =
     bnd (until B d (timeout (fst c)) (visibility_of_element_located (btn ! 0) (btn ! 2))) (\<lambda>opt.
     bnd (click B opt) (\<lambda>_. wait_spinner B d t)) c2"
proof -
  from until_self[OF assms(3)] have f1: "fst c1 = fst c" .
  from click_self[OF assms(4)] f1 have f2: "fst c2 = fst c" by simp
  from assms(2) have len: "btn \<noteq> []" "Suc 0 < length btn" by auto
  obtain r3 c3 where u: "until B d (timeout (fst c)) (visibility_of_element_located (btn ! 0) (btn ! 2)) c2 = (r3, c3)"
    by (cases "until B d (timeout (fst c)) (visibility_of_element_located (btn ! 0) (btn ! 2)) c2")
  from until_self[OF u] f2 have f3: "fst c3 = fst c" by simp
  show ?thesis
  proof (cases r3)
    case (Inl e)
    with assms f1 f2 len u show ?thesis
      by (simp add: set_state_def bnd_def self_driver_def attr_def item_def)
  next
    case (Inr opt)
    obtain r4 c4 where k: "click B opt c3 = (r4, c4)" by (cases "click B opt c3")
    from click_self[OF k] f3 have f4: "fst c4 = fst c" by simp
    from Inr assms f1 f2 f3 f4 len u k show ?thesis
      by (cases r4) (simp_all add: set_state_def bnd_def self_driver_def attr_def item_def)
  qed
qed

text \<open>\<open>_set_state\<close> on any tuple: with a third component the secondary step follows the
  primary one; without it at most two driver calls are made.\<close>

lemma set_state_steps:
  assumes "set_state B btn t c = (r, c')"
  shows "(2 < length btn \<longrightarrow>
           (\<forall>d b u c1 c2.
              driver (fst c) = Some d \<and>
              until B d (timeout (fst c)) (visibility_of_element_located (btn ! 0) (btn ! 1)) c = (Inr b, c1) \<and>
              click B b c1 = (Inr u, c2) \<longrightarrow>
              (r, c') =
                bnd (until B d (timeout (fst c)) (visibility_of_element_located (btn ! 0) (btn ! 2))) (\<lambda>opt.
                bnd (click B opt) (\<lambda>_. wait_spinner B d t)) c2) \<and>
           (r = Inr () \<longrightarrow>
              (\<exists>d b opt x. trace (snd c') = trace (snd c) @
                 [E_until d (timeout (fst c)) (visibility_of_element_located (btn ! 0) (btn ! 1)) (Inr b),
                  E_click b (Inr ()),
                  E_until d (timeout (fst c)) (visibility_of_element_located (btn ! 0) (btn ! 2)) (Inr opt),
                  E_click opt (Inr ()),
                  E_until d t (invisibility_of_element_located ''id''
                     ''ctl00_phBody_ArmingStateWidget_imgPopupSpinner'') (Inr x)]))) \<and>
         (\<not> 2 < length btn \<longrightarrow>
           (\<exists>evs. trace (snd c') = trace (snd c) @ evs \<and> length evs \<le> 2 \<and>
              (r = Inr () \<longrightarrow> (\<exists>d b. evs =
                 [E_until d (timeout (fst c)) (visibility_of_element_located (btn ! 0) (btn ! 1)) (Inr b),
                  E_click b (Inr ())])))) \<and>
         length BTN_DISARM = 2 \<and> length BTN_ARM_STAY = 3 \<and> length BTN_ARM_AWAY = 3"
proof -
  have p1: "\<forall>d b u c1 c2.
              driver (fst c) = Some d \<and>
              until B d (timeout (fst c)) (visibility_of_element_located (btn ! 0) (btn ! 1)) c = (Inr b, c1) \<and>
              click B b c1 = (Inr u, c2) \<longrightarrow>
              (r, c') =
                bnd (until B d (timeout (fst c)) (visibility_of_element_located (btn ! 0) (btn ! 2))) (\<lambda>opt.
                bnd (click B opt) (\<lambda>_. wait_spinner B d t)) c2"
    if "2 < length btn"
  proof (intro allI impI)
    fix d b u c1 c2
    assume h: "driver (fst c) = Some d \<and>
              until B d (timeout (fst c)) (visibility_of_element_located (btn ! 0) (btn ! 1)) c = (Inr b, c1) \<and>
              click B b c1 = (Inr u, c2)"
    from set_state_after_primary[of c d btn B b c1 u c2 t] h that assms
    show "(r, c') =
                bnd (until B d (timeout (fst c)) (visibility_of_element_located (btn ! 0) (btn ! 2))) (\<lambda>opt.
                bnd (click B opt) (\<lambda>_. wait_spinner B d t)) c2"
      by simp
  qed
  have p2: "\<exists>d b opt x. trace (snd c') = trace (snd c) @
              [E_until d (timeout (fst c)) (visibility_of_element_located (btn ! 0) (btn ! 1)) (Inr b),
               E_click b (Inr ()),
               E_until d (timeout (fst c)) (visibility_of_element_located (btn ! 0) (btn ! 2)) (Inr opt),
               E_click opt (Inr ()),
               E_until d t (invisibility_of_element_located ''id''
                  ''ctl00_phBody_ArmingStateWidget_imgPopupSpinner'') (Inr x)]"
    if "2 < length btn" "r = Inr ()"
    using that assms set_state_completes[of B btn t c "()" c'] by blast
  have p3: "\<exists>evs. trace (snd c') = trace (snd c) @ evs \<and> length evs \<le> 2 \<and>
              (r = Inr () \<longrightarrow> (\<exists>d b. evs =
                 [E_until d (timeout (fst c)) (visibility_of_element_located (btn ! 0) (btn ! 1)) (Inr b),
                  E_click b (Inr ())]))"
    if "\<not> 2 < length btn"
    using that assms set_state_primary_only[of B btn t c r c'] by blast
  have p4: "length BTN_DISARM = 2 \<and> length BTN_ARM_STAY = 3 \<and> length BTN_ARM_AWAY = 3"
    by (simp add: BTN_DISARM_def BTN_ARM_STAY_def BTN_ARM_AWAY_def)
  from p1 p2 p3 p4 show ?thesis by blast
qed

text \<open>
  Whatever number of rounds a status query took, if it returned a value then its trace ends
  with a successful read attempt: the refresh button was waited for and clicked, the status
  image was waited for, and the value is the \<open>alt\<close> attribute just read. The proof is by
  induction over the unfolding of \<open>state\<close>.
\<close>

lemma state_Inr_trace:
  assumes "state B c = Some (Inr v, c')"
  shows "\<exists>pre d b img. driver (fst c') = Some d \<and> trace (snd c') = trace (snd c) @ pre @
      [E_until d (timeout (fst c')) (visibility_of_element_located ''id''
           ''ctl00_phBody_ArmingStateWidget_btnArmingRefresh'') (Inr b),
       E_click b (Inr ()),
       E_until d (timeout (fst c')) (presence_of_element_located (STATUS_IMG ! 0) (STATUS_IMG ! 1)) (Inr img),
       E_get_attribute img ''alt'' (Inr v)]"
proof -
  let ?Q = "\<lambda>tr0 c' v. \<exists>pre d b img. driver (fst c') = Some d \<and> trace (snd c') = tr0 @ pre @
      [E_until d (timeout (fst c')) (visibility_of_element_located ''id''
           ''ctl00_phBody_ArmingStateWidget_btnArmingRefresh'') (Inr b),
       E_click b (Inr ()),
       E_until d (timeout (fst c')) (presence_of_element_located (STATUS_IMG ! 0) (STATUS_IMG ! 1)) (Inr img),
       E_get_attribute img ''alt'' (Inr v)]"
  have "\<forall>v c'. y = (Inr v, c') \<longrightarrow> ?Q (trace (snd c)) c' v"
    if "state B c = Some y" for y
    using that
  proof (induct rule: state.raw_induct[rotated 1, consumes 1])
    case (1 st B c y)
    obtain r c1 where t: "state_try B c = (r, c1)" by (cases "state_try B c")
    show ?case
    proof (cases r)
      case (Inr cur)
      with 1(2) t have y: "y = (Inr cur, c1)" by simp
      from state_try_Inr[of B c cur c1] t Inr
      have "?Q (trace (snd c)) c1 cur" by fastforce
      with y show ?thesis by blast
    next
      case (Inl e)
      show ?thesis
      proof (cases "e \<in> set state_except")
        case False
        with 1(2) t Inl show ?thesis by auto
      next
        case True
        obtain r2 c2 where l: "login B c1 = (r2, c2)" by (cases "login B c1")
        show ?thesis
        proof (cases r2)
          case (Inl e2)
          with 1(2) t \<open>r = Inl e\<close> True l show ?thesis by auto
        next
          case (Inr ok)
          with 1(2) t \<open>r = Inl e\<close> True l have s: "st B c2 = Some y" by simp
          from state_try_extends[OF t] obtain ev1 where e1: "trace (snd c1) = trace (snd c) @ ev1"
            by blast
          from login_extends[OF l] obtain ev2 where e2: "trace (snd c2) = trace (snd c1) @ ev2"
            by blast
          show ?thesis
          proof (intro allI impI)
            fix v c' assume "y = (Inr v, c')"
            with 1(1)[OF s] obtain pre d b img where d: "driver (fst c') = Some d" and
              "trace (snd c') = trace (snd c2) @ pre @
                [E_until d (timeout (fst c')) (visibility_of_element_located ''id''
                   ''ctl00_phBody_ArmingStateWidget_btnArmingRefresh'') (Inr b),
                 E_click b (Inr ()),
                 E_until d (timeout (fst c')) (presence_of_element_located (STATUS_IMG ! 0) (STATUS_IMG ! 1)) (Inr img),
                 E_get_attribute img ''alt'' (Inr v)]" by blast
            then have "trace (snd c') = trace (snd c) @ (ev1 @ ev2 @ pre) @
                [E_until d (timeout (fst c')) (visibility_of_element_located ''id''
                   ''ctl00_phBody_ArmingStateWidget_btnArmingRefresh'') (Inr b),
                 E_click b (Inr ()),
                 E_until d (timeout (fst c')) (presence_of_element_located (STATUS_IMG ! 0) (STATUS_IMG ! 1)) (Inr img),
                 E_get_attribute img ''alt'' (Inr v)]" using e1 e2 by simp
            with d show "?Q (trace (snd c)) c' v" by blast
          qed
        qed
      qed
    qed
  qed
  with assms show ?thesis by blast
qed

section \<open>Runs on the scripted driver\<close>

lemmas eval_defs = scripted_def perform_def call_defs bnd_def ret_def attr_def self_driver_def
   set_driver_def item_def

lemma scripted_login_ok:
  "login scripted (self, \<lparr>world = login_ok d @ w, trace = tr\<rparr>) =
     (Inr True, self\<lparr>driver := Some d\<rparr>,
      \<lparr>world = w, trace = tr @ login_events d (username self) (password self)\<rparr>)"
  by (simp add: login_def login_ok_def login_events_def eval_defs LOGIN_USERNAME_def
      LOGIN_PASSWORD_def LOGIN_BUTTON_def)

lemma scripted_read_ok:
  "driver self = Some d \<Longrightarrow>
   state_try scripted (self, \<lparr>world = read_ok v @ w, trace = tr\<rparr>) =
     (Inr (Some v), self, \<lparr>world = w, trace = tr @ read_events d (timeout self) v\<rparr>)"
  by (simp add: state_try_def read_ok_def read_events_def eval_defs STATUS_IMG_def)

lemma scripted_read_fails:
  "driver self = Some d \<Longrightarrow>
   state_try scripted (self, \<lparr>world = A_raise e # w, trace = tr\<rparr>) =
     (Inl e, self, \<lparr>world = w, trace = tr @ read_fails d (timeout self) e\<rparr>)"
  by (simp add: state_try_def read_fails_def eval_defs)

lemma reconnects_events:
  "reconnects (login_events d u p) = 1" "reconnects (read_events d t v) = 0"
  "reconnects (read_fails d t e) = 0" "reconnects [] = 0"
  by (simp_all add: reconnects_def login_events_def read_events_def read_fails_def)

lemma state_read_ok:
  "state scripted (run (read_ok v)) =
     Some (Inr (Some v), alice, \<lparr>world = [], trace = read_events 0 5 v\<rparr>)"
proof -
  have "state_try scripted (run (read_ok v)) =
     (Inr (Some v), alice, \<lparr>world = [], trace = read_events 0 5 v\<rparr>)"
    unfolding run_def using scripted_read_ok[of alice 0 v "[]" "[]"] by (simp add: alice_def)
  then show ?thesis by (rule state_success)
qed

lemma state_read_ok_then:
  "state scripted (run (read_ok v @ w)) =
     Some (Inr (Some v), alice, \<lparr>world = w, trace = read_events 0 5 v\<rparr>)"
proof -
  have "state_try scripted (run (read_ok v @ w)) =
     (Inr (Some v), alice, \<lparr>world = w, trace = read_events 0 5 v\<rparr>)"
    unfolding run_def using scripted_read_ok[of alice 0 v w "[]"] by (simp add: alice_def)
  then show ?thesis by (rule state_success)
qed

lemma state_two_timeouts:
  "state scripted (run two_timeouts) =
     Some (Inr (Some ''Disarmed''), alice\<lparr>driver := Some 3\<rparr>,
       \<lparr>world = [], trace = read_fails 0 5 TimeoutException @ login_events 2 ''alice'' ''secret'' @
          read_fails 2 5 TimeoutException @ login_events 3 ''alice'' ''secret'' @
          read_events 3 5 ''Disarmed''\<rparr>)"
proof -
  have ex: "TimeoutException \<in> set state_except" by (simp add: state_except_def)
  have a1: "state_try scripted (run two_timeouts) =
      (Inl TimeoutException, alice, \<lparr>world = login_ok 2 @ A_raise TimeoutException # login_ok 3 @ read_ok ''Disarmed'',
         trace = [] @ read_fails 0 5 TimeoutException\<rparr>)"
    unfolding run_def two_timeouts_def
    using scripted_read_fails[of alice 0] by (simp add: alice_def)
  note l1 = scripted_login_ok[of alice 2 "A_raise TimeoutException # login_ok 3 @ read_ok ''Disarmed''"
      "[] @ read_fails 0 5 TimeoutException"]
  have a2: "state_try scripted (alice\<lparr>driver := Some 2\<rparr>,
       \<lparr>world = A_raise TimeoutException # login_ok 3 @ read_ok ''Disarmed'',
          trace = ([] @ read_fails 0 5 TimeoutException) @ login_events 2 (username alice) (password alice)\<rparr>) =
      (Inl TimeoutException, alice\<lparr>driver := Some 2\<rparr>, \<lparr>world = login_ok 3 @ read_ok ''Disarmed'',
         trace = (([] @ read_fails 0 5 TimeoutException) @ login_events 2 (username alice) (password alice))
            @ read_fails 2 5 TimeoutException\<rparr>)"
    using scripted_read_fails[of "alice\<lparr>driver := Some 2\<rparr>" 2] by (simp add: alice_def)
  note l2 = scripted_login_ok[of "alice\<lparr>driver := Some 2\<rparr>" 3 "read_ok ''Disarmed''"
      "(([] @ read_fails 0 5 TimeoutException) @ login_events 2 (username alice) (password alice))
            @ read_fails 2 5 TimeoutException"]
  have a3: "state_try scripted (alice\<lparr>driver := Some 2, driver := Some 3\<rparr>,
       \<lparr>world = read_ok ''Disarmed'' @ [],
          trace = ((([] @ read_fails 0 5 TimeoutException) @ login_events 2 (username alice) (password alice))
            @ read_fails 2 5 TimeoutException) @ login_events 3 (username (alice\<lparr>driver := Some 2\<rparr>)) (password (alice\<lparr>driver := Some 2\<rparr>))\<rparr>) =
      (Inr (Some ''Disarmed''), alice\<lparr>driver := Some 2, driver := Some 3\<rparr>, \<lparr>world = [],
         trace = (((([] @ read_fails 0 5 TimeoutException) @ login_events 2 (username alice) (password alice))
            @ read_fails 2 5 TimeoutException) @ login_events 3 (username (alice\<lparr>driver := Some 2\<rparr>)) (password (alice\<lparr>driver := Some 2\<rparr>))) @ read_events 3 5 ''Disarmed''\<rparr>)"
    using scripted_read_ok[of "alice\<lparr>driver := Some 2, driver := Some 3\<rparr>" 3 "''Disarmed''" "[]"]
    by (simp add: alice_def)
  have "state scripted (run two_timeouts) = state scripted (alice\<lparr>driver := Some 2\<rparr>,
       \<lparr>world = A_raise TimeoutException # login_ok 3 @ read_ok ''Disarmed'',
          trace = ([] @ read_fails 0 5 TimeoutException) @ login_events 2 (username alice) (password alice)\<rparr>)"
    by (rule state_again[OF a1 ex l1])
  also have "\<dots> = state scripted (alice\<lparr>driver := Some 2, driver := Some 3\<rparr>,
       \<lparr>world = read_ok ''Disarmed'' @ [],
          trace = ((([] @ read_fails 0 5 TimeoutException) @ login_events 2 (username alice) (password alice))
            @ read_fails 2 5 TimeoutException) @ login_events 3 (username (alice\<lparr>driver := Some 2\<rparr>)) (password (alice\<lparr>driver := Some 2\<rparr>))\<rparr>)"
    using state_again[OF a2 ex l2] by simp
  also note state_success[OF a3]
  finally show ?thesis by (simp add: alice_def)
qed

lemma scripted_arm_away:
  "set_state scripted BTN_ARM_AWAY t (alice, \<lparr>world = arm_ok, trace = tr\<rparr>) =
     (Inr (), alice, \<lparr>world = [], trace = tr @ arm_events BTN_ARM_AWAY t (Inr 32)\<rparr>)"
  by (simp add: set_state_def wait_spinner_def arm_ok_def arm_events_def alice_def eval_defs
      BTN_ARM_AWAY_def)

lemma scripted_arm_stay:
  "set_state scripted BTN_ARM_STAY t (alice, \<lparr>world = arm_ok, trace = tr\<rparr>) =
     (Inr (), alice, \<lparr>world = [], trace = tr @ arm_events BTN_ARM_STAY t (Inr 32)\<rparr>)"
  by (simp add: set_state_def wait_spinner_def arm_ok_def arm_events_def alice_def eval_defs
      BTN_ARM_STAY_def)

lemma scripted_disarm:
  "set_state scripted BTN_DISARM t (alice, \<lparr>world = [A_handle 30, A_ok], trace = tr\<rparr>) =
     (Inr (), alice, \<lparr>world = [], trace = tr @ take 2 (arm_events BTN_DISARM t (Inr 32))\<rparr>)"
  by (simp add: set_state_def arm_events_def alice_def eval_defs BTN_DISARM_def)

text \<open>The three operations on the scripted driver.\<close>

lemma disarm_run:
  "disarm scripted (run (read_ok ''Armed Away'' @ [A_handle 30, A_ok])) =
     Some (Inr (), alice, \<lparr>world = [], trace = read_events 0 5 ''Armed Away'' @
        take 2 (arm_events BTN_DISARM 10 (Inr 32))\<rparr>)"
  using state_read_ok_then[of "''Armed Away''" "[A_handle 30, A_ok]"]
    scripted_disarm[of 10 "read_events 0 5 ''Armed Away''"]
  by (simp add: disarm_def set_state_timeout_default_def)

lemma arm_away_run:
  "arm_away scripted (run (read_ok ''Disarmed'' @ arm_ok)) =
     Some (Inr (), alice, \<lparr>world = [], trace = read_events 0 5 ''Disarmed'' @
        arm_events BTN_ARM_AWAY 10 (Inr 32)\<rparr>)"
  using state_read_ok_then[of "''Disarmed''" arm_ok]
    scripted_arm_away[of 10 "read_events 0 5 ''Disarmed''"]
  by (simp add: arm_away_def set_state_timeout_default_def)

lemma arm_stay_run:
  "arm_stay scripted (run (read_ok ''Disarmed'' @ arm_ok)) =
     Some (Inr (), alice, \<lparr>world = [], trace = read_events 0 5 ''Disarmed'' @
        arm_events BTN_ARM_STAY 10 (Inr 32)\<rparr>)"
  using state_read_ok_then[of "''Disarmed''" arm_ok]
    scripted_arm_stay[of 10 "read_events 0 5 ''Disarmed''"]
  by (simp add: arm_stay_def set_state_timeout_default_def)

section \<open>The claims\<close>

text \<open>
  Claim C1, as the code has it. When a read attempt of \<open>state\<close> fails with one of the four
  exceptions of its \<open>except\<close> clause, \<open>state\<close> runs \<open>_login\<close> once. If \<open>_login\<close> returns
  (\<open>True\<close> or \<open>False\<close>: the result is dropped), one more PhantomJS has been started and the
  query starts again from the configuration \<open>_login\<close> left, so that a retry that succeeds
  gives its value. If \<open>_login\<close> raises, that exception leaves \<open>state\<close>. A retry that fails
  again is treated like the first failure: the code puts no bound on the number of rounds
  and has no exception of its own for an unavailable status.
\<close>

theorem state_reconnects_and_retries:
  assumes "state_try B c = (Inl e, c1)" and "e \<in> set state_except"
  shows "(\<forall>ok c2. login B c1 = (Inr ok, c2) \<longrightarrow>
            state B c = state B c2 \<and>
            reconnects (trace (snd c2)) = reconnects (trace (snd c1)) + 1 \<and>
            (\<forall>v c3. state_try B c2 = (Inr v, c3) \<longrightarrow> state B c = Some (Inr v, c3))) \<and>
         (\<forall>e2 c2. login B c1 = (Inl e2, c2) \<longrightarrow> state B c = Some (Inl e2, c2))"
proof (intro conjI allI impI)
  fix ok c2 assume l: "login B c1 = (Inr ok, c2)"
  from state_again[OF assms l] show s: "state B c = state B c2" .
  from login_starts[OF l] show "reconnects (trace (snd c2)) = reconnects (trace (snd c1)) + 1"
    by (auto simp: reconnects_append) (simp add: reconnects_def)
  fix v c3 assume "state_try B c2 = (Inr v, c3)"
  with s show "state B c = Some (Inr v, c3)" by (simp add: state_success)
next
  fix e2 c2 assume "login B c1 = (Inl e2, c2)"
  with assms show "state B c = Some (Inl e2, c2)" by (rule state_login_raises)
qed

theorem state_reconnects_and_retries_witness:
  "state_try scripted (run one_timeout) =
     (Inl TimeoutException, alice,
      \<lparr>world = login_ok 2 @ read_ok ''Disarmed'', trace = read_fails 0 5 TimeoutException\<rparr>) \<and>
   TimeoutException \<in> set state_except \<and>
   login scripted (alice,
      \<lparr>world = login_ok 2 @ read_ok ''Disarmed'', trace = read_fails 0 5 TimeoutException\<rparr>) =
     (Inr True, alice\<lparr>driver := Some 2\<rparr>,
      \<lparr>world = read_ok ''Disarmed'',
         trace = read_fails 0 5 TimeoutException @ login_events 2 ''alice'' ''secret''\<rparr>) \<and>
   state scripted (run one_timeout) =
     Some (Inr (Some ''Disarmed''), alice\<lparr>driver := Some 2\<rparr>,
      \<lparr>world = [],
         trace = read_fails 0 5 TimeoutException @ login_events 2 ''alice'' ''secret'' @
           read_events 2 5 ''Disarmed''\<rparr>) \<and>
   state_try scripted (run login_crashes) =
     (Inl NoSuchWindowException, alice,
      \<lparr>world = [A_raise WebDriverException], trace = read_fails 0 5 NoSuchWindowException\<rparr>) \<and>
   NoSuchWindowException \<in> set state_except \<and>
   state scripted (run login_crashes) =
     Some (Inl WebDriverException, alice,
      \<lparr>world = [], trace = read_fails 0 5 NoSuchWindowException @ [E_PhantomJS (Inl WebDriverException)]\<rparr>)"
proof -
  have a1: "state_try scripted (run one_timeout) =
     (Inl TimeoutException, alice,
      \<lparr>world = login_ok 2 @ read_ok ''Disarmed'', trace = read_fails 0 5 TimeoutException\<rparr>)"
    unfolding run_def one_timeout_def
    using scripted_read_fails[of alice 0] by (simp add: alice_def)
  have ex: "TimeoutException \<in> set state_except" "NoSuchWindowException \<in> set state_except"
    by (simp_all add: state_except_def)
  have l1: "login scripted (alice,
      \<lparr>world = login_ok 2 @ read_ok ''Disarmed'', trace = read_fails 0 5 TimeoutException\<rparr>) =
     (Inr True, alice\<lparr>driver := Some 2\<rparr>,
      \<lparr>world = read_ok ''Disarmed'',
         trace = read_fails 0 5 TimeoutException @ login_events 2 ''alice'' ''secret''\<rparr>)"
    using scripted_login_ok[of alice 2 "read_ok ''Disarmed''"] by (simp add: alice_def)
  have a2: "state_try scripted (alice\<lparr>driver := Some 2\<rparr>,
      \<lparr>world = read_ok ''Disarmed'',
         trace = read_fails 0 5 TimeoutException @ login_events 2 ''alice'' ''secret''\<rparr>) =
     (Inr (Some ''Disarmed''), alice\<lparr>driver := Some 2\<rparr>,
      \<lparr>world = [],
         trace = read_fails 0 5 TimeoutException @ login_events 2 ''alice'' ''secret'' @
           read_events 2 5 ''Disarmed''\<rparr>)"
    using scripted_read_ok[of "alice\<lparr>driver := Some 2\<rparr>" 2 "''Disarmed''" "[]"]
    by (simp add: alice_def)
  have b1: "state_try scripted (run login_crashes) =
     (Inl NoSuchWindowException, alice,
      \<lparr>world = [A_raise WebDriverException], trace = read_fails 0 5 NoSuchWindowException\<rparr>)"
    unfolding run_def login_crashes_def
    using scripted_read_fails[of alice 0] by (simp add: alice_def)
  have b2: "login scripted (alice,
      \<lparr>world = [A_raise WebDriverException], trace = read_fails 0 5 NoSuchWindowException\<rparr>) =
     (Inl WebDriverException, alice,
      \<lparr>world = [], trace = read_fails 0 5 NoSuchWindowException @ [E_PhantomJS (Inl WebDriverException)]\<rparr>)"
    by (simp add: login_def eval_defs)
  from state_reconnects_and_retries[OF a1 ex(1)] l1 a2
  have r1: "state scripted (run one_timeout) =
     Some (Inr (Some ''Disarmed''), alice\<lparr>driver := Some 2\<rparr>,
      \<lparr>world = [],
         trace = read_fails 0 5 TimeoutException @ login_events 2 ''alice'' ''secret'' @
           read_events 2 5 ''Disarmed''\<rparr>)"
    by blast
  from state_reconnects_and_retries[OF b1 ex(2)] b2
  have r2: "state scripted (run login_crashes) =
     Some (Inl WebDriverException, alice,
      \<lparr>world = [], trace = read_fails 0 5 NoSuchWindowException @ [E_PhantomJS (Inl WebDriverException)]\<rparr>)"
    by blast
  from a1 ex l1 r1 b1 r2 show ?thesis by blast
qed

text \<open>
  The bound of one reconnect does not hold. On the script \<open>two_timeouts\<close> the first read
  times out, the read after the first reconnect times out again, and \<open>state\<close> neither
  raises nor stops: it reconnects a second time and returns \<open>Disarmed\<close>.
\<close>

theorem state_second_reconnect:
  "fst (state_try scripted (run two_timeouts)) = Inl TimeoutException \<and>
   fst (state_try scripted (snd (login scripted (snd (state_try scripted (run two_timeouts)))))) =
     Inl TimeoutException \<and>
   map_option fst (state scripted (run two_timeouts)) = Some (Inr (Some ''Disarmed'')) \<and>
   map_option (reconnects \<circ> trace \<circ> snd \<circ> snd) (state scripted (run two_timeouts)) = Some 2"
proof -
  have a1: "state_try scripted (run two_timeouts) =
      (Inl TimeoutException, alice, \<lparr>world = login_ok 2 @ A_raise TimeoutException # login_ok 3 @ read_ok ''Disarmed'',
         trace = read_fails 0 5 TimeoutException\<rparr>)"
    unfolding run_def two_timeouts_def
    using scripted_read_fails[of alice 0] by (simp add: alice_def)
  have l1: "login scripted (alice, \<lparr>world = login_ok 2 @ A_raise TimeoutException # login_ok 3 @ read_ok ''Disarmed'',
         trace = read_fails 0 5 TimeoutException\<rparr>) =
     (Inr True, alice\<lparr>driver := Some 2\<rparr>,
      \<lparr>world = A_raise TimeoutException # login_ok 3 @ read_ok ''Disarmed'',
         trace = read_fails 0 5 TimeoutException @ login_events 2 ''alice'' ''secret''\<rparr>)"
    using scripted_login_ok[of alice 2] by (simp add: alice_def)
  have a2: "fst (state_try scripted (alice\<lparr>driver := Some 2\<rparr>,
       \<lparr>world = A_raise TimeoutException # login_ok 3 @ read_ok ''Disarmed'',
          trace = read_fails 0 5 TimeoutException @ login_events 2 ''alice'' ''secret''\<rparr>)) =
      Inl TimeoutException"
    using scripted_read_fails[of "alice\<lparr>driver := Some 2\<rparr>" 2] by (simp add: alice_def)
  show ?thesis
    by (simp add: a1 l1 a2 state_two_timeouts reconnects_append reconnects_events)
qed

text \<open>
  Claim C2 asks for \<open>ElementException\<close> when the primary or the secondary control does not
  become visible in time. In \<open>_set_state\<close> both waits stand before the \<open>try\<close>, so their
  \<open>TimeoutException\<close> leaves the method as it is: for disarm and arm-away when the
  primary control times out, and for arm-stay when the secondary one does.
\<close>

theorem set_state_timeout_escapes:
  "fst (set_state scripted BTN_DISARM set_state_timeout_default (run [A_raise TimeoutException])) =
      Inl TimeoutException \<and>
   fst (set_state scripted BTN_ARM_AWAY set_state_timeout_default (run [A_raise TimeoutException])) =
      Inl TimeoutException \<and>
   fst (set_state scripted BTN_ARM_STAY set_state_timeout_default
          (run [A_handle 30, A_ok, A_raise TimeoutException])) = Inl TimeoutException"
  by (simp add: set_state_def run_def alice_def eval_defs BTN_DISARM_def BTN_ARM_AWAY_def BTN_ARM_STAY_def)

text \<open>
  Claim C3. When the status read of \<open>disarm\<close> returns \<open>Disarmed\<close>, \<open>disarm\<close> raises
  \<open>SystemDisarmedError\<close> in the very configuration the read left: the same object, the same
  world and the same trace, hence no wait and no click after the read.
\<close>

theorem disarm_when_disarmed:
  "state B c = Some (Inr (Some ''Disarmed''), c1) \<Longrightarrow>
   disarm B c = Some (Inl SystemDisarmedError, c1)"
  by (simp add: disarm_def)

theorem disarm_when_disarmed_witness:
  "state scripted (run (read_ok ''Disarmed'')) =
     Some (Inr (Some ''Disarmed''), alice, \<lparr>world = [], trace = read_events 0 5 ''Disarmed''\<rparr>) \<and>
   disarm scripted (run (read_ok ''Disarmed'')) =
     Some (Inl SystemDisarmedError, alice, \<lparr>world = [], trace = read_events 0 5 ''Disarmed''\<rparr>)"
  using disarm_when_disarmed[OF state_read_ok[of "''Disarmed''"]] state_read_ok[of "''Disarmed''"]
  by simp



text \<open>
  Claim C5. The constructor raises \<open>LoginException\<close>, and so gives no object, whenever the
  title of the page behind \<open>LOGIN_URL\<close> is not \<open>Customer Login\<close>, and whenever, the form
  filled in and sent, the title is not \<open>Current System Status\<close>. When it does give an
  object, the trace shows both titles as expected, on the driver the object holds.
\<close>

theorem connect_checks_page_identity:
  "(b_PhantomJS B (world s) = (Inr d, w1) \<and> b_get B d LOGIN_URL w1 = (Inr (), w2) \<and>
    b_title B d w2 = (Inr t, w3) \<and> t \<noteq> ''Customer Login''
      \<longrightarrow> fst (Alarmdotcom B u p tm s) = Inl LoginException) \<and>
   (b_PhantomJS B (world s) = (Inr d, w1) \<and> b_get B d LOGIN_URL w1 = (Inr (), w2) \<and>
    b_title B d w2 = (Inr ''Customer Login'', w3) \<and>
    b_find_element B d (LOGIN_USERNAME ! 0) (LOGIN_USERNAME ! 1) w3 = (Inr user, w4) \<and>
    b_find_element B d (LOGIN_PASSWORD ! 0) (LOGIN_PASSWORD ! 1) w4 = (Inr pwd, w5) \<and>
    b_find_element B d (LOGIN_BUTTON ! 0) (LOGIN_BUTTON ! 1) w5 = (Inr btn, w6) \<and>
    b_send_keys B user u w6 = (Inr (), w7) \<and> b_send_keys B pwd p w7 = (Inr (), w8) \<and>
    b_click B btn w8 = (Inr (), w9) \<and>
    b_title B d w9 = (Inr t2, w10) \<and> t2 \<noteq> ''Current System Status''
      \<longrightarrow> fst (Alarmdotcom B u p tm s) = Inl LoginException) \<and>
   (\<forall>obj s'. Alarmdotcom B u p tm s = (Inr obj, s') \<longrightarrow>
      (\<exists>d user pwd btn. driver obj = Some d \<and> trace s' = trace s @
         [E_PhantomJS (Inr d), E_get d LOGIN_URL (Inr ()), E_title d (Inr ''Customer Login''),
          E_find_element d (LOGIN_USERNAME ! 0) (LOGIN_USERNAME ! 1) (Inr user),
          E_find_element d (LOGIN_PASSWORD ! 0) (LOGIN_PASSWORD ! 1) (Inr pwd),
          E_find_element d (LOGIN_BUTTON ! 0) (LOGIN_BUTTON ! 1) (Inr btn),
          E_send_keys user u (Inr ()), E_send_keys pwd p (Inr ()), E_click btn (Inr ()),
          E_title d (Inr ''Current System Status'')]))"
proof (intro conjI impI allI)
  assume "b_PhantomJS B (world s) = (Inr d, w1) \<and> b_get B d LOGIN_URL w1 = (Inr (), w2) \<and>
    b_title B d w2 = (Inr t, w3) \<and> t \<noteq> ''Customer Login''"
  then show "fst (Alarmdotcom B u p tm s) = Inl LoginException"
    by (simp add: Alarmdotcom_def login_def bnd_def call_defs perform_def set_driver_def ret_def)
next
  assume "b_PhantomJS B (world s) = (Inr d, w1) \<and> b_get B d LOGIN_URL w1 = (Inr (), w2) \<and>
    b_title B d w2 = (Inr ''Customer Login'', w3) \<and>
    b_find_element B d (LOGIN_USERNAME ! 0) (LOGIN_USERNAME ! 1) w3 = (Inr user, w4) \<and>
    b_find_element B d (LOGIN_PASSWORD ! 0) (LOGIN_PASSWORD ! 1) w4 = (Inr pwd, w5) \<and>
    b_find_element B d (LOGIN_BUTTON ! 0) (LOGIN_BUTTON ! 1) w5 = (Inr btn, w6) \<and>
    b_send_keys B user u w6 = (Inr (), w7) \<and> b_send_keys B pwd p w7 = (Inr (), w8) \<and>
    b_click B btn w8 = (Inr (), w9) \<and>
    b_title B d w9 = (Inr t2, w10) \<and> t2 \<noteq> ''Current System Status''"
  then show "fst (Alarmdotcom B u p tm s) = Inl LoginException"
    by (simp add: Alarmdotcom_def login_def bnd_def call_defs perform_def set_driver_def ret_def
        attr_def)
next
  fix obj s' assume a: "Alarmdotcom B u p tm s = (Inr obj, s')"
  let ?self = "\<lparr>username = u, password = p, timeout = tm, driver = None\<rparr>"
  from a have "login B (?self, s) = (Inr True, obj, s')"
    by (auto simp: Alarmdotcom_def split: prod.splits sum.splits if_splits)
  from login_True[OF this]
  show "\<exists>d user pwd btn. driver obj = Some d \<and> trace s' = trace s @
         [E_PhantomJS (Inr d), E_get d LOGIN_URL (Inr ()), E_title d (Inr ''Customer Login''),
          E_find_element d (LOGIN_USERNAME ! 0) (LOGIN_USERNAME ! 1) (Inr user),
          E_find_element d (LOGIN_PASSWORD ! 0) (LOGIN_PASSWORD ! 1) (Inr pwd),
          E_find_element d (LOGIN_BUTTON ! 0) (LOGIN_BUTTON ! 1) (Inr btn),
          E_send_keys user u (Inr ()), E_send_keys pwd p (Inr ()), E_click btn (Inr ()),
          E_title d (Inr ''Current System Status'')]"
    by auto
qed

theorem connect_checks_page_identity_witness:
  "b_title scripted 2 [A_text ''Not Found''] = (Inr ''Not Found'', []) \<and>
   ''Not Found'' \<noteq> ''Customer Login'' \<and>
   fst (Alarmdotcom scripted ''alice'' ''secret'' 5 \<lparr>world = wrong_page, trace = []\<rparr>) =
     Inl LoginException \<and>
   b_title scripted 2 [A_text ''Customer Login''] = (Inr ''Customer Login'', []) \<and>
   ''Customer Login'' \<noteq> ''Current System Status'' \<and>
   fst (Alarmdotcom scripted ''alice'' ''secret'' 5 \<lparr>world = wrong_password, trace = []\<rparr>) =
     Inl LoginException \<and>
   Alarmdotcom scripted ''alice'' ''secret'' 5 \<lparr>world = login_ok 2, trace = []\<rparr> =
     (Inr (alice\<lparr>driver := Some 2\<rparr>),
      \<lparr>world = [], trace = login_events 2 ''alice'' ''secret''\<rparr>)"
proof -
  have a: "fst (Alarmdotcom scripted ''alice'' ''secret'' 5 \<lparr>world = wrong_page, trace = []\<rparr>) =
     Inl LoginException"
    using connect_checks_page_identity[of scripted "\<lparr>world = wrong_page, trace = []\<rparr>" 2
      "[A_ok, A_text ''Not Found'']" "[A_text ''Not Found'']" "''Not Found''" "[]"
      "''alice''" "''secret''" 5]
    by (simp add: wrong_page_def scripted_def)
  have b: "fst (Alarmdotcom scripted ''alice'' ''secret'' 5 \<lparr>world = wrong_password, trace = []\<rparr>) =
     Inl LoginException"
    using connect_checks_page_identity[of scripted "\<lparr>world = wrong_password, trace = []\<rparr>" 2
      "drop 1 wrong_password" "drop 2 wrong_password" _ "drop 3 wrong_password"
      "''alice''" "''secret''" 5 10 "drop 4 wrong_password" 11 "drop 5 wrong_password"
      12 "drop 6 wrong_password" "drop 7 wrong_password" "drop 8 wrong_password"
      "drop 9 wrong_password" "''Customer Login''" "[]"]
    by (simp add: wrong_password_def scripted_def)
  have c: "Alarmdotcom scripted ''alice'' ''secret'' 5 \<lparr>world = login_ok 2, trace = []\<rparr> =
     (Inr (alice\<lparr>driver := Some 2\<rparr>),
      \<lparr>world = [], trace = login_events 2 ''alice'' ''secret''\<rparr>)"
    using scripted_login_ok[of "\<lparr>username = ''alice'', password = ''secret'', timeout = 5, driver = None\<rparr>"
        2 "[]" "[]"]
    by (simp add: Alarmdotcom_def alice_def)
  from a b c show ?thesis by (simp add: scripted_def)
qed

text \<open>
  Claim C6. After a status read that returned anything but \<open>Disarmed\<close>, \<open>disarm\<close> returns
  and has made at most two driver calls after the read; when it succeeds these are the
  wait for \<open>BTN_DISARM\<close> and its click, so it has no secondary step. After a read that
  returned \<open>Disarmed\<close>, \<open>arm_away\<close> and \<open>arm_stay\<close> return, and once the primary button of
  their own tuple is found and clicked, what is left of the run is the wait for the
  secondary control \<open>(btn[0], btn[2])\<close> of that tuple, its click and the wait for the
  spinner; when they succeed they have made exactly these five driver calls. The tuple of
  \<open>disarm\<close> has no third component, those of the arm operations have one.
\<close>

theorem operations_secondary_step:
  assumes "state B c = Some (Inr st, c1)"
  shows "(st \<noteq> Some ''Disarmed'' \<longrightarrow>
           (\<exists>r c' evs. disarm B c = Some (r, c') \<and>
              trace (snd c') = trace (snd c1) @ evs \<and> length evs \<le> 2 \<and>
              (r = Inr () \<longrightarrow> (\<exists>d b. evs =
                 [E_until d (timeout (fst c1))
                    (visibility_of_element_located (BTN_DISARM ! 0) (BTN_DISARM ! 1)) (Inr b),
                  E_click b (Inr ())])))) \<and>
         (st = Some ''Disarmed'' \<longrightarrow>
           (\<exists>r c'. arm_away B c = Some (r, c') \<and>
              (\<forall>d b u c2 c3.
                 driver (fst c1) = Some d \<and>
                 until B d (timeout (fst c1))
                   (visibility_of_element_located (BTN_ARM_AWAY ! 0) (BTN_ARM_AWAY ! 1)) c1 = (Inr b, c2) \<and>
                 click B b c2 = (Inr u, c3) \<longrightarrow>
                 (r, c') =
                   bnd (until B d (timeout (fst c1))
                          (visibility_of_element_located (BTN_ARM_AWAY ! 0) (BTN_ARM_AWAY ! 2))) (\<lambda>opt.
                   bnd (click B opt) (\<lambda>_. wait_spinner B d set_state_timeout_default)) c3) \<and>
              (r = Inr () \<longrightarrow>
                 (\<exists>d b opt x. trace (snd c') = trace (snd c1) @
                    [E_until d (timeout (fst c1))
                       (visibility_of_element_located (BTN_ARM_AWAY ! 0) (BTN_ARM_AWAY ! 1)) (Inr b),
                     E_click b (Inr ()),
                     E_until d (timeout (fst c1))
                       (visibility_of_element_located (BTN_ARM_AWAY ! 0) (BTN_ARM_AWAY ! 2)) (Inr opt),
                     E_click opt (Inr ()),
                     E_until d set_state_timeout_default (invisibility_of_element_located ''id''
                        ''ctl00_phBody_ArmingStateWidget_imgPopupSpinner'') (Inr x)]))) \<and>
           (\<exists>r c'. arm_stay B c = Some (r, c') \<and>
              (\<forall>d b u c2 c3.
                 driver (fst c1) = Some d \<and>
                 until B d (timeout (fst c1))
                   (visibility_of_element_located (BTN_ARM_STAY ! 0) (BTN_ARM_STAY ! 1)) c1 = (Inr b, c2) \<and>
                 click B b c2 = (Inr u, c3) \<longrightarrow>
                 (r, c') =
                   bnd (until B d (timeout (fst c1))
                          (visibility_of_element_located (BTN_ARM_STAY ! 0) (BTN_ARM_STAY ! 2))) (\<lambda>opt.
                   bnd (click B opt) (\<lambda>_. wait_spinner B d set_state_timeout_default)) c3) \<and>
              (r = Inr () \<longrightarrow>
                 (\<exists>d b opt x. trace (snd c') = trace (snd c1) @
                    [E_until d (timeout (fst c1))
                       (visibility_of_element_located (BTN_ARM_STAY ! 0) (BTN_ARM_STAY ! 1)) (Inr b),
                     E_click b (Inr ()),
                     E_until d (timeout (fst c1))
                       (visibility_of_element_located (BTN_ARM_STAY ! 0) (BTN_ARM_STAY ! 2)) (Inr opt),
                     E_click opt (Inr ()),
                     E_until d set_state_timeout_default (invisibility_of_element_located ''id''
                        ''ctl00_phBody_ArmingStateWidget_imgPopupSpinner'') (Inr x)])))) \<and>
         length BTN_DISARM = 2 \<and> length BTN_ARM_STAY = 3 \<and> length BTN_ARM_AWAY = 3"
proof -
  have len: "\<not> 2 < length BTN_DISARM" "2 < length BTN_ARM_AWAY" "2 < length BTN_ARM_STAY"
    by (simp_all add: BTN_DISARM_def BTN_ARM_AWAY_def BTN_ARM_STAY_def)
  have dis: "\<exists>r c' evs. disarm B c = Some (r, c') \<and>
              trace (snd c') = trace (snd c1) @ evs \<and> length evs \<le> 2 \<and>
              (r = Inr () \<longrightarrow> (\<exists>d b. evs =
                 [E_until d (timeout (fst c1))
                    (visibility_of_element_located (BTN_DISARM ! 0) (BTN_DISARM ! 1)) (Inr b),
                  E_click b (Inr ())]))"
    if "st \<noteq> Some ''Disarmed''"
  proof -
    obtain r c' where s: "set_state B BTN_DISARM set_state_timeout_default c1 = (r, c')"
      by (cases "set_state B BTN_DISARM set_state_timeout_default c1")
    from assms that s have "disarm B c = Some (r, c')" by (simp add: disarm_def)
    with set_state_steps[OF s] len(1) show ?thesis by blast
  qed
  have away: "\<exists>r c'. arm_away B c = Some (r, c') \<and>
              (\<forall>d b u c2 c3.
                 driver (fst c1) = Some d \<and>
                 until B d (timeout (fst c1))
                   (visibility_of_element_located (BTN_ARM_AWAY ! 0) (BTN_ARM_AWAY ! 1)) c1 = (Inr b, c2) \<and>
                 click B b c2 = (Inr u, c3) \<longrightarrow>
                 (r, c') =
                   bnd (until B d (timeout (fst c1))
                          (visibility_of_element_located (BTN_ARM_AWAY ! 0) (BTN_ARM_AWAY ! 2))) (\<lambda>opt.
                   bnd (click B opt) (\<lambda>_. wait_spinner B d set_state_timeout_default)) c3) \<and>
              (r = Inr () \<longrightarrow>
                 (\<exists>d b opt x. trace (snd c') = trace (snd c1) @
                    [E_until d (timeout (fst c1))
                       (visibility_of_element_located (BTN_ARM_AWAY ! 0) (BTN_ARM_AWAY ! 1)) (Inr b),
                     E_click b (Inr ()),
                     E_until d (timeout (fst c1))
                       (visibility_of_element_located (BTN_ARM_AWAY ! 0) (BTN_ARM_AWAY ! 2)) (Inr opt),
                     E_click opt (Inr ()),
                     E_until d set_state_timeout_default (invisibility_of_element_located ''id''
                        ''ctl00_phBody_ArmingStateWidget_imgPopupSpinner'') (Inr x)]))"
    if "st = Some ''Disarmed''"
  proof -
    obtain r c' where s: "set_state B BTN_ARM_AWAY set_state_timeout_default c1 = (r, c')"
      by (cases "set_state B BTN_ARM_AWAY set_state_timeout_default c1")
    from assms that s have "arm_away B c = Some (r, c')" by (simp add: arm_away_def)
    with set_state_steps[OF s] len(2) show ?thesis by blast
  qed
  have stay: "\<exists>r c'. arm_stay B c = Some (r, c') \<and>
              (\<forall>d b u c2 c3.
                 driver (fst c1) = Some d \<and>
                 until B d (timeout (fst c1))
                   (visibility_of_element_located (BTN_ARM_STAY ! 0) (BTN_ARM_STAY ! 1)) c1 = (Inr b, c2) \<and>
                 click B b c2 = (Inr u, c3) \<longrightarrow>
                 (r, c') =
                   bnd (until B d (timeout (fst c1))
                          (visibility_of_element_located (BTN_ARM_STAY ! 0) (BTN_ARM_STAY ! 2))) (\<lambda>opt.
                   bnd (click B opt) (\<lambda>_. wait_spinner B d set_state_timeout_default)) c3) \<and>
              (r = Inr () \<longrightarrow>
                 (\<exists>d b opt x. trace (snd c') = trace (snd c1) @
                    [E_until d (timeout (fst c1))
                       (visibility_of_element_located (BTN_ARM_STAY ! 0) (BTN_ARM_STAY ! 1)) (Inr b),
                     E_click b (Inr ()),
                     E_until d (timeout (fst c1))
                       (visibility_of_element_located (BTN_ARM_STAY ! 0) (BTN_ARM_STAY ! 2)) (Inr opt),
                     E_click opt (Inr ()),
                     E_until d set_state_timeout_default (invisibility_of_element_located ''id''
                        ''ctl00_phBody_ArmingStateWidget_imgPopupSpinner'') (Inr x)]))"
    if "st = Some ''Disarmed''"
  proof -
    obtain r c' where s: "set_state B BTN_ARM_STAY set_state_timeout_default c1 = (r, c')"
      by (cases "set_state B BTN_ARM_STAY set_state_timeout_default c1")
    from assms that s have "arm_stay B c = Some (r, c')" by (simp add: arm_stay_def)
    with set_state_steps[OF s] len(3) show ?thesis by blast
  qed
  have tab: "length BTN_DISARM = 2 \<and> length BTN_ARM_STAY = 3 \<and> length BTN_ARM_AWAY = 3"
    by (simp add: BTN_DISARM_def BTN_ARM_STAY_def BTN_ARM_AWAY_def)
  from dis away stay tab show ?thesis by (intro conjI impI) auto
qed

theorem operations_secondary_step_witness:
  "state scripted (run (read_ok ''Armed Away'' @ [A_handle 30, A_ok])) =
     Some (Inr (Some ''Armed Away''), alice,
       \<lparr>world = [A_handle 30, A_ok], trace = read_events 0 5 ''Armed Away''\<rparr>) \<and>
   disarm scripted (run (read_ok ''Armed Away'' @ [A_handle 30, A_ok])) =
     Some (Inr (), alice, \<lparr>world = [], trace = read_events 0 5 ''Armed Away'' @
        take 2 (arm_events BTN_DISARM 10 (Inr 32))\<rparr>) \<and>
   length (take 2 (arm_events BTN_DISARM 10 (Inr 32))) \<le> 2 \<and>
   state scripted (run (read_ok ''Disarmed'' @ arm_ok)) =
     Some (Inr (Some ''Disarmed''), alice, \<lparr>world = arm_ok, trace = read_events 0 5 ''Disarmed''\<rparr>) \<and>
   arm_away scripted (run (read_ok ''Disarmed'' @ arm_ok)) =
     Some (Inr (), alice, \<lparr>world = [], trace = read_events 0 5 ''Disarmed'' @
        arm_events BTN_ARM_AWAY 10 (Inr 32)\<rparr>) \<and>
   arm_stay scripted (run (read_ok ''Disarmed'' @ arm_ok)) =
     Some (Inr (), alice, \<lparr>world = [], trace = read_events 0 5 ''Disarmed'' @
        arm_events BTN_ARM_STAY 10 (Inr 32)\<rparr>) \<and>
   driver alice = Some 0 \<and>
   until scripted 0 (timeout alice)
       (visibility_of_element_located (BTN_ARM_AWAY ! 0) (BTN_ARM_AWAY ! 1))
       (alice, \<lparr>world = arm_ok, trace = read_events 0 5 ''Disarmed''\<rparr>) =
     (Inr 30, alice, \<lparr>world = drop 1 arm_ok, trace = read_events 0 5 ''Disarmed'' @
        take 1 (arm_events BTN_ARM_AWAY 10 (Inr 32))\<rparr>) \<and>
   click scripted 30
       (alice, \<lparr>world = drop 1 arm_ok, trace = read_events 0 5 ''Disarmed'' @
          take 1 (arm_events BTN_ARM_AWAY 10 (Inr 32))\<rparr>) =
     (Inr (), alice, \<lparr>world = drop 2 arm_ok, trace = read_events 0 5 ''Disarmed'' @
        take 2 (arm_events BTN_ARM_AWAY 10 (Inr 32))\<rparr>) \<and>
   bnd (until scripted 0 (timeout alice)
          (visibility_of_element_located (BTN_ARM_AWAY ! 0) (BTN_ARM_AWAY ! 2))) (\<lambda>opt.
     bnd (click scripted opt) (\<lambda>_. wait_spinner scripted 0 set_state_timeout_default))
       (alice, \<lparr>world = drop 2 arm_ok, trace = read_events 0 5 ''Disarmed'' @
          take 2 (arm_events BTN_ARM_AWAY 10 (Inr 32))\<rparr>) =
     (Inr (), alice, \<lparr>world = [], trace = read_events 0 5 ''Disarmed'' @
        arm_events BTN_ARM_AWAY 10 (Inr 32)\<rparr>)"
proof -
  note s1 = state_read_ok_then[of "''Armed Away''" "[A_handle 30, A_ok]"]
  note s2 = state_read_ok_then[of "''Disarmed''" arm_ok]
  have d: "driver alice = Some 0" by (simp add: alice_def)
  have u: "until scripted 0 (timeout alice)
       (visibility_of_element_located (BTN_ARM_AWAY ! 0) (BTN_ARM_AWAY ! 1))
       (alice, \<lparr>world = arm_ok, trace = read_events 0 5 ''Disarmed''\<rparr>) =
     (Inr 30, alice, \<lparr>world = drop 1 arm_ok, trace = read_events 0 5 ''Disarmed'' @
        take 1 (arm_events BTN_ARM_AWAY 10 (Inr 32))\<rparr>)"
    by (simp add: arm_ok_def arm_events_def alice_def eval_defs)
  have k: "click scripted 30
       (alice, \<lparr>world = drop 1 arm_ok, trace = read_events 0 5 ''Disarmed'' @
          take 1 (arm_events BTN_ARM_AWAY 10 (Inr 32))\<rparr>) =
     (Inr (), alice, \<lparr>world = drop 2 arm_ok, trace = read_events 0 5 ''Disarmed'' @
        take 2 (arm_events BTN_ARM_AWAY 10 (Inr 32))\<rparr>)"
    by (simp add: arm_ok_def arm_events_def eval_defs)
  have ne: "Some ''Armed Away'' \<noteq> Some ''Disarmed''" by simp
  from operations_secondary_step[OF s1] ne disarm_run
  have l: "length (take 2 (arm_events BTN_DISARM 10 (Inr 32))) \<le> 2" by simp
  from operations_secondary_step[OF s2] arm_away_run d u k
  have r: "bnd (until scripted 0 (timeout alice)
          (visibility_of_element_located (BTN_ARM_AWAY ! 0) (BTN_ARM_AWAY ! 2))) (\<lambda>opt.
     bnd (click scripted opt) (\<lambda>_. wait_spinner scripted 0 set_state_timeout_default))
       (alice, \<lparr>world = drop 2 arm_ok, trace = read_events 0 5 ''Disarmed'' @
          take 2 (arm_events BTN_ARM_AWAY 10 (Inr 32))\<rparr>) =
     (Inr (), alice, \<lparr>world = [], trace = read_events 0 5 ''Disarmed'' @
        arm_events BTN_ARM_AWAY 10 (Inr 32)\<rparr>)"
    by (simp add: alice_def)
  from s1 s2 disarm_run arm_away_run arm_stay_run l d u k r show ?thesis by blast
qed

text \<open>
  Claim C7. Every value \<open>state\<close> returns was read in that very call: the trace of the call
  ends with the wait for the refresh button, its click, the wait for the status image and
  the reading of \<open>alt\<close>, all four successful, on the driver and with the timeout the object
  has at the end, and the value returned is the one the last of them gave. The object has
  no attribute that could hold an earlier state.
\<close>

theorem state_refreshes_before_reading:
  assumes "state B c = Some (Inr v, c')"
  shows "\<exists>pre d b img. driver (fst c') = Some d \<and> trace (snd c') = trace (snd c) @ pre @
      [E_until d (timeout (fst c')) (visibility_of_element_located ''id''
           ''ctl00_phBody_ArmingStateWidget_btnArmingRefresh'') (Inr b),
       E_click b (Inr ()),
       E_until d (timeout (fst c')) (presence_of_element_located (STATUS_IMG ! 0) (STATUS_IMG ! 1)) (Inr img),
       E_get_attribute img ''alt'' (Inr v)]"
  using assms by (rule state_Inr_trace)

theorem state_refreshes_before_reading_witness:
  "state scripted (run two_timeouts) =
     Some (Inr (Some ''Disarmed''), alice\<lparr>driver := Some 3\<rparr>,
       \<lparr>world = [], trace = read_fails 0 5 TimeoutException @ login_events 2 ''alice'' ''secret'' @
          read_fails 2 5 TimeoutException @ login_events 3 ''alice'' ''secret'' @
          read_events 3 5 ''Disarmed''\<rparr>) \<and>
   (\<exists>pre b img. read_fails 0 5 TimeoutException @ login_events 2 ''alice'' ''secret'' @
          read_fails 2 5 TimeoutException @ login_events 3 ''alice'' ''secret'' @
          read_events 3 5 ''Disarmed'' = pre @
      [E_until 3 5 (visibility_of_element_located ''id''
           ''ctl00_phBody_ArmingStateWidget_btnArmingRefresh'') (Inr b),
       E_click b (Inr ()),
       E_until 3 5 (presence_of_element_located (STATUS_IMG ! 0) (STATUS_IMG ! 1)) (Inr img),
       E_get_attribute img ''alt'' (Inr (Some ''Disarmed''))])"
  using state_refreshes_before_reading[OF state_two_timeouts] state_two_timeouts
  by (simp add: run_def alice_def)

text \<open>
  Claim C8, as the code has it. In \<open>_set_state\<close> on a tuple with a third component, once
  the secondary button has been clicked the next driver call is the wait for the spinner
  to disappear, bounded by the method's own \<open>timeout\<close> parameter \<open>t\<close> and not by
  \<open>self.timeout\<close>. If that wait raises \<open>TimeoutException\<close> the method raises
  \<open>ElementException\<close>, and so do \<open>arm_away\<close> and \<open>arm_stay\<close>; if it returns, the method
  returns. The public operations always pass 10, which is longer than \<open>self.timeout\<close>
  exactly when that is below 10, as it is with the constructor's default 5.
\<close>

theorem arm_completion_wait:
  assumes "driver (fst c) = Some d" and "2 < length btn"
    and "until B d (timeout (fst c)) (visibility_of_element_located (btn ! 0) (btn ! 1)) c = (Inr b, c1)"
    and "click B b c1 = (Inr u1, c2)"
    and "until B d (timeout (fst c)) (visibility_of_element_located (btn ! 0) (btn ! 2)) c2 = (Inr opt, c3)"
    and "click B opt c3 = (Inr u2, c4)"
    and "until B d t (invisibility_of_element_located ''id''
           ''ctl00_phBody_ArmingStateWidget_imgPopupSpinner'') c4 = (r, c5)"
  shows "(r = Inl TimeoutException \<longrightarrow> set_state B btn t c = (Inl ElementException, c5)) \<and>
         (\<forall>x. r = Inr x \<longrightarrow> set_state B btn t c = (Inr (), c5)) \<and>
         trace (snd c5) = trace (snd c4) @
           [E_until d t (invisibility_of_element_located ''id''
              ''ctl00_phBody_ArmingStateWidget_imgPopupSpinner'') r] \<and>
         (\<forall>c0. state B c0 = Some (Inr (Some ''Disarmed''), c) \<and> t = set_state_timeout_default \<and>
               r = Inl TimeoutException \<longrightarrow>
               (btn = BTN_ARM_AWAY \<longrightarrow> arm_away B c0 = Some (Inl ElementException, c5)) \<and>
               (btn = BTN_ARM_STAY \<longrightarrow> arm_stay B c0 = Some (Inl ElementException, c5))) \<and>
         (t = set_state_timeout_default \<longrightarrow> t = 10 \<and> (timeout (fst c) < t) = (timeout (fst c) < 10)) \<and>
         (t = set_state_timeout_default \<and> timeout (fst c) = init_timeout_default \<longrightarrow> timeout (fst c) < t)"
proof -
  from until_self[OF assms(3)] have f1: "fst c1 = fst c" .
  from click_self[OF assms(4)] f1 have f2: "fst c2 = fst c" by simp
  from until_self[OF assms(5)] f2 have f3: "fst c3 = fst c" by simp
  from click_self[OF assms(6)] f3 have f4: "fst c4 = fst c" by simp
  from assms(2) have len: "btn \<noteq> []" "Suc 0 < length btn" by auto
  have eq: "set_state B btn t c = wait_spinner B d t c4"
    using assms(1-6) f1 f2 f3 f4 len
    by (simp add: set_state_def bnd_def self_driver_def attr_def item_def)
  have p1: "r = Inl TimeoutException \<longrightarrow> set_state B btn t c = (Inl ElementException, c5)"
    using eq assms(7) by (simp add: wait_spinner_def)
  have p2: "\<forall>x. r = Inr x \<longrightarrow> set_state B btn t c = (Inr (), c5)"
    using eq assms(7) by (simp add: wait_spinner_def)
  note p3 = until_trace[OF assms(7)]
  have p4: "\<forall>c0. state B c0 = Some (Inr (Some ''Disarmed''), c) \<and> t = set_state_timeout_default \<and>
               r = Inl TimeoutException \<longrightarrow>
               (btn = BTN_ARM_AWAY \<longrightarrow> arm_away B c0 = Some (Inl ElementException, c5)) \<and>
               (btn = BTN_ARM_STAY \<longrightarrow> arm_stay B c0 = Some (Inl ElementException, c5))"
    using p1 by (auto simp: arm_away_def arm_stay_def)
  have p5: "t = set_state_timeout_default \<longrightarrow> t = 10 \<and> (timeout (fst c) < t) = (timeout (fst c) < 10)"
    by (simp add: set_state_timeout_default_def)
  have p6: "t = set_state_timeout_default \<and> timeout (fst c) = init_timeout_default \<longrightarrow> timeout (fst c) < t"
    by (simp add: set_state_timeout_default_def init_timeout_default_def)
  from p1 p2 p3 p4 p5 p6 show ?thesis by blast
qed

theorem arm_completion_wait_witness:
  "state scripted (run (read_ok ''Disarmed'' @ spinner_stays)) =
     Some (Inr (Some ''Disarmed''), alice,
       \<lparr>world = spinner_stays, trace = read_events 0 5 ''Disarmed''\<rparr>) \<and>
   driver alice = Some 0 \<and> 2 < length BTN_ARM_AWAY \<and> timeout alice = init_timeout_default \<and>
   set_state scripted BTN_ARM_AWAY set_state_timeout_default
       (alice, \<lparr>world = spinner_stays, trace = read_events 0 5 ''Disarmed''\<rparr>) =
     (Inl ElementException, alice,
      \<lparr>world = [], trace = read_events 0 5 ''Disarmed'' @
         arm_events BTN_ARM_AWAY 10 (Inl TimeoutException)\<rparr>) \<and>
   arm_away scripted (run (read_ok ''Disarmed'' @ spinner_stays)) =
     Some (Inl ElementException, alice,
      \<lparr>world = [], trace = read_events 0 5 ''Disarmed'' @
         arm_events BTN_ARM_AWAY 10 (Inl TimeoutException)\<rparr>) \<and>
   timeout alice < set_state_timeout_default"
proof -
  let ?tr = "read_events 0 5 ''Disarmed''"
  let ?c = "(alice, \<lparr>world = spinner_stays, trace = ?tr\<rparr>)"
  let ?b0 = "BTN_ARM_AWAY ! 0" and ?b1 = "BTN_ARM_AWAY ! 1" and ?b2 = "BTN_ARM_AWAY ! 2"
  let ?e1 = "E_until 0 5 (visibility_of_element_located ?b0 ?b1) (Inr 30)"
  let ?e2 = "E_click 30 (Inr ())"
  let ?e3 = "E_until 0 5 (visibility_of_element_located ?b0 ?b2) (Inr 31)"
  let ?e4 = "E_click 31 (Inr ())"
  let ?e5 = "E_until 0 10 (invisibility_of_element_located ''id''
           ''ctl00_phBody_ArmingStateWidget_imgPopupSpinner'') (Inl TimeoutException)"
  note s = state_read_ok_then[of "''Disarmed''" spinner_stays]
  have h1: "driver (fst ?c) = Some 0" by (simp add: alice_def)
  have h2: "2 < length BTN_ARM_AWAY" by (simp add: BTN_ARM_AWAY_def)
  have h3: "until scripted 0 (timeout (fst ?c)) (visibility_of_element_located ?b0 ?b1) ?c =
      (Inr 30, alice, \<lparr>world = [A_ok, A_handle 31, A_ok, A_raise TimeoutException], trace = ?tr @ [?e1]\<rparr>)"
    by (simp add: spinner_stays_def alice_def eval_defs)
  have h4: "click scripted 30
       (alice, \<lparr>world = [A_ok, A_handle 31, A_ok, A_raise TimeoutException], trace = ?tr @ [?e1]\<rparr>) =
      (Inr (), alice, \<lparr>world = [A_handle 31, A_ok, A_raise TimeoutException], trace = ?tr @ [?e1, ?e2]\<rparr>)"
    by (simp add: eval_defs)
  have h5: "until scripted 0 (timeout (fst ?c)) (visibility_of_element_located ?b0 ?b2)
        (alice, \<lparr>world = [A_handle 31, A_ok, A_raise TimeoutException], trace = ?tr @ [?e1, ?e2]\<rparr>) =
      (Inr 31, alice, \<lparr>world = [A_ok, A_raise TimeoutException], trace = ?tr @ [?e1, ?e2, ?e3]\<rparr>)"
    by (simp add: alice_def eval_defs)
  have h6: "click scripted 31
       (alice, \<lparr>world = [A_ok, A_raise TimeoutException], trace = ?tr @ [?e1, ?e2, ?e3]\<rparr>) =
      (Inr (), alice, \<lparr>world = [A_raise TimeoutException], trace = ?tr @ [?e1, ?e2, ?e3, ?e4]\<rparr>)"
    by (simp add: eval_defs)
  have h7: "until scripted 0 set_state_timeout_default (invisibility_of_element_located ''id''
           ''ctl00_phBody_ArmingStateWidget_imgPopupSpinner'')
       (alice, \<lparr>world = [A_raise TimeoutException], trace = ?tr @ [?e1, ?e2, ?e3, ?e4]\<rparr>) =
      (Inl TimeoutException, alice, \<lparr>world = [], trace = ?tr @ [?e1, ?e2, ?e3, ?e4, ?e5]\<rparr>)"
    by (simp add: eval_defs set_state_timeout_default_def)
  have i: "timeout alice = init_timeout_default" by (simp add: alice_def init_timeout_default_def)
  note acw = arm_completion_wait[OF h1 h2 h3 h4 h5 h6 h7]
  note p1 = acw[THEN conjunct1]
  note p4 = acw[THEN conjunct2, THEN conjunct2, THEN conjunct2, THEN conjunct1]
  note p6 = acw[THEN conjunct2, THEN conjunct2, THEN conjunct2, THEN conjunct2, THEN conjunct2]
  have ev: "[?e1, ?e2, ?e3, ?e4, ?e5] = arm_events BTN_ARM_AWAY 10 (Inl TimeoutException)"
    by (simp add: arm_events_def)
  have a0: "set_state scripted BTN_ARM_AWAY set_state_timeout_default ?c =
     (Inl ElementException, alice, \<lparr>world = [], trace = ?tr @ [?e1, ?e2, ?e3, ?e4, ?e5]\<rparr>)"
    by (rule p1[THEN mp, OF refl])
  have b0: "arm_away scripted (run (read_ok ''Disarmed'' @ spinner_stays)) =
     Some (Inl ElementException, alice, \<lparr>world = [], trace = ?tr @ [?e1, ?e2, ?e3, ?e4, ?e5]\<rparr>)"
    by (rule p4[THEN spec, THEN mp, OF conjI[OF s conjI[OF refl refl]], THEN conjunct1, THEN mp, OF refl])
  have i0: "timeout (fst ?c) = init_timeout_default" by (simp add: alice_def init_timeout_default_def)
  have c0: "timeout (fst ?c) < set_state_timeout_default"
    by (rule p6[THEN mp, OF conjI[OF refl i0]])
  have d: "driver alice = Some 0" by (simp add: alice_def)
  from c0 have c: "timeout alice < set_state_timeout_default" by simp
  from a0 have a: "set_state scripted BTN_ARM_AWAY set_state_timeout_default ?c =
     (Inl ElementException, alice,
      \<lparr>world = [], trace = ?tr @ arm_events BTN_ARM_AWAY 10 (Inl TimeoutException)\<rparr>)"
    unfolding ev .
  from b0 have b: "arm_away scripted (run (read_ok ''Disarmed'' @ spinner_stays)) =
     Some (Inl ElementException, alice,
      \<lparr>world = [], trace = ?tr @ arm_events BTN_ARM_AWAY 10 (Inl TimeoutException)\<rparr>)"
    unfolding ev .
  from s d h2 i a b c show ?thesis by blast
qed

text \<open>
  The completion timeout need not be the longer one: an object built with \<open>timeout=30\<close>
  waits up to 30 seconds for each button and up to 10 for the spinner.
\<close>

theorem completion_wait_not_longer:
  "Alarmdotcom scripted ''alice'' ''secret'' 30 \<lparr>world = login_ok 0, trace = []\<rparr> =
     (Inr patient, \<lparr>world = [], trace = login_events 0 ''alice'' ''secret''\<rparr>) \<and>
   arm_away scripted (patient, \<lparr>world = read_ok ''Disarmed'' @ arm_ok, trace = []\<rparr>) =
     Some (Inr (), patient, \<lparr>world = [], trace = read_events 0 30 ''Disarmed'' @
       [E_until 0 30 (visibility_of_element_located (BTN_ARM_AWAY ! 0) (BTN_ARM_AWAY ! 1)) (Inr 30),
        E_click 30 (Inr ()),
        E_until 0 30 (visibility_of_element_located (BTN_ARM_AWAY ! 0) (BTN_ARM_AWAY ! 2)) (Inr 31),
        E_click 31 (Inr ()),
        E_until 0 10 (invisibility_of_element_located ''id''
           ''ctl00_phBody_ArmingStateWidget_imgPopupSpinner'') (Inr 32)]\<rparr>) \<and>
   set_state_timeout_default < timeout patient"
proof -
  have a: "Alarmdotcom scripted ''alice'' ''secret'' 30 \<lparr>world = login_ok 0, trace = []\<rparr> =
     (Inr patient, \<lparr>world = [], trace = login_events 0 ''alice'' ''secret''\<rparr>)"
    using scripted_login_ok[of "\<lparr>username = ''alice'', password = ''secret'', timeout = 30, driver = None\<rparr>"
        0 "[]" "[]"]
    by (simp add: Alarmdotcom_def patient_def)
  have "state_try scripted (patient, \<lparr>world = read_ok ''Disarmed'' @ arm_ok, trace = []\<rparr>) =
     (Inr (Some ''Disarmed''), patient, \<lparr>world = arm_ok, trace = read_events 0 30 ''Disarmed''\<rparr>)"
    using scripted_read_ok[of patient 0 "''Disarmed''" arm_ok "[]"] by (simp add: patient_def)
  then have s: "state scripted (patient, \<lparr>world = read_ok ''Disarmed'' @ arm_ok, trace = []\<rparr>) =
     Some (Inr (Some ''Disarmed''), patient, \<lparr>world = arm_ok, trace = read_events 0 30 ''Disarmed''\<rparr>)"
    by (rule state_success)
  have t: "set_state scripted BTN_ARM_AWAY set_state_timeout_default
       (patient, \<lparr>world = arm_ok, trace = read_events 0 30 ''Disarmed''\<rparr>) =
     (Inr (), patient, \<lparr>world = [], trace = read_events 0 30 ''Disarmed'' @
       [E_until 0 30 (visibility_of_element_located (BTN_ARM_AWAY ! 0) (BTN_ARM_AWAY ! 1)) (Inr 30),
        E_click 30 (Inr ()),
        E_until 0 30 (visibility_of_element_located (BTN_ARM_AWAY ! 0) (BTN_ARM_AWAY ! 2)) (Inr 31),
        E_click 31 (Inr ()),
        E_until 0 10 (invisibility_of_element_located ''id''
           ''ctl00_phBody_ArmingStateWidget_imgPopupSpinner'') (Inr 32)]\<rparr>)"
    by (simp add: set_state_def wait_spinner_def arm_ok_def patient_def eval_defs BTN_ARM_AWAY_def
        set_state_timeout_default_def)
  have u: "set_state_timeout_default < timeout patient"
    by (simp add: set_state_timeout_default_def patient_def)
  from a s t u show ?thesis by (simp add: arm_away_def)
qed

text \<open>
  Claim C9, as the code has it. \<open>state\<close> returns the \<open>alt\<close> attribute as the driver gave
  it: whatever value a read attempt obtains is returned unchanged, and every value returned
  is the outcome of the last \<open>get_attribute\<close> call of the trace. Nothing parses it.
\<close>

theorem state_returns_alt_unparsed:
  "(\<forall>v c1. state_try B c = (Inr v, c1) \<longrightarrow> state B c = Some (Inr v, c1)) \<and>
   (\<forall>v c'. state B c = Some (Inr v, c') \<longrightarrow>
      (\<exists>img. last (trace (snd c')) = E_get_attribute img ''alt'' (Inr v)))"
proof (intro conjI allI impI)
  fix v c1 assume "state_try B c = (Inr v, c1)"
  then show "state B c = Some (Inr v, c1)" by (rule state_success)
next
  fix v c' assume "state B c = Some (Inr v, c')"
  from state_Inr_trace[OF this]
  show "\<exists>img. last (trace (snd c')) = E_get_attribute img ''alt'' (Inr v)" by auto
qed

theorem state_returns_alt_unparsed_witness:
  "state_try scripted (run (read_ok ''Sensor 4 open'')) =
     (Inr (Some ''Sensor 4 open''), alice, \<lparr>world = [], trace = read_events 0 5 ''Sensor 4 open''\<rparr>) \<and>
   state scripted (run (read_ok ''Sensor 4 open'')) =
     Some (Inr (Some ''Sensor 4 open''), alice, \<lparr>world = [], trace = read_events 0 5 ''Sensor 4 open''\<rparr>) \<and>
   last (read_events 0 5 ''Sensor 4 open'') = E_get_attribute 21 ''alt'' (Inr (Some ''Sensor 4 open''))"
proof -
  have a: "state_try scripted (run (read_ok ''Sensor 4 open'')) =
     (Inr (Some ''Sensor 4 open''), alice, \<lparr>world = [], trace = read_events 0 5 ''Sensor 4 open''\<rparr>)"
    unfolding run_def using scripted_read_ok[of alice 0 "''Sensor 4 open''" "[]" "[]"]
    by (simp add: alice_def)
  from state_returns_alt_unparsed[of scripted "run (read_ok ''Sensor 4 open'')"] a
  have b: "state scripted (run (read_ok ''Sensor 4 open'')) =
     Some (Inr (Some ''Sensor 4 open''), alice, \<lparr>world = [], trace = read_events 0 5 ''Sensor 4 open''\<rparr>)"
    by blast
  from a b show ?thesis by (simp add: read_events_def)
qed

text \<open>
  The value need not be one of the four names of the specification's enumeration: when the
  image's \<open>alt\<close> is \<open>Sensor 4 open\<close>, that is what \<open>state\<close> returns.
\<close>

theorem state_value_not_enumerated:
  "map_option fst (state scripted (run (read_ok ''Sensor 4 open''))) =
      Some (Inr (Some ''Sensor 4 open'')) \<and>
   ''Sensor 4 open'' \<notin> set spec_AlarmState"
  by (simp add: state_read_ok spec_AlarmState_def)



end
